theory Spec2Isabelle
  imports Complex_Main
begin

section \<open>The IDAS integrator interface of CasADi (idas\_interface.cpp)\<close>

text \<open>
  A shallow embedding of \<^verbatim>\<open>casadi/interfaces/sundials/idas_interface.cpp\<close>.

  Conventions of the embedding.
  \<^item> A C++ \<^verbatim>\<open>double\<close> is a \<^typ>\<open>real\<close>: comparisons and arithmetic are exact, and
    NaN, infinities and rounding are outside the model.
  \<^item> A dimension (\<^verbatim>\<open>nx_\<close>, \<^verbatim>\<open>nz_\<close>, ...) is a \<^typ>\<open>nat\<close>; a return flag or a
    counter of the solver is an \<^typ>\<open>int\<close>.
  \<^item> An \<^verbatim>\<open>N_Vector\<close> or a \<^verbatim>\<open>std::vector<double>\<close> is a \<^typ>\<open>real list\<close>.
  \<^item> A C++ exception is a value: \<open>error\<close> for what the interface itself raises
    towards its caller, \<open>thrown\<close> for what a collaborator raises inside a callback.
  \<^item> The SUNDIALS library is not part of the file. It is a parameter (\<open>env\<close>): a
    deterministic function from the history of the calls made on the IDAS memory block
    and the present call to that call's reply. The memory block \<^verbatim>\<open>m->mem\<close> is
    that history, so that every call into the solver is visible in the state.
\<close>

subsection \<open>Errors and messages\<close>

text \<open>
  A message is the sequence of the values inserted into the stream that builds it
  (\<^verbatim>\<open>ss << module << " returned ..."\<close>): strings and numbers.
\<close>

datatype part = Str string | Dbl real | Num nat

type_synonym message = "part list"

text \<open>
  \<^verbatim>\<open>casadi_assert_message\<close> and \<^verbatim>\<open>casadi_error\<close> both throw a CasADi exception;
  the two constructors keep apart which of them raised it.
\<close>

datatype error = AssertionFailed message | CasadiError message

text \<open>What a collaborator can throw inside a callback: an \<^verbatim>\<open>int\<close>, or a
  \<^verbatim>\<open>std::exception\<close> with its \<^verbatim>\<open>what()\<close> text.\<close>

datatype thrown = ThrowInt int | ThrowExc string

subsection \<open>The solver as a parameter\<close>

datatype interp = SD_HERMITE | SD_POLYNOMIAL

datatype itsol = SD_GMRES | SD_BCGSTAB | SD_TFQMR

text \<open>
  The calls the interface makes on the IDAS memory block, with the arguments it passes.
  \<open>AttachLinearSolver\<close> stands for the direct writes to the fields \<^verbatim>\<open>ida_lmem\<close>, \<^verbatim>\<open>ida_lsetup\<close>, \<^verbatim>\<open>ida_lsolve\<close> and
  \<^verbatim>\<open>ida_setupNonNull\<close> of the block; \<open>IDAGetIntegratorStatsB\<close> is
  \<^verbatim>\<open>IDAGetIntegratorStats\<close> called on the backward problem's block
  (\<^verbatim>\<open>IDAB_mem->IDA_mem\<close>).
\<close>

datatype call =
    IDACreate
  | IDASetErrHandlerFn
  | IDASetUserData
  | IDAInit real "real list" "real list"
  | IDASetSuppressAlg bool
  | IDASetMaxOrd int
  | IDASetMaxStep real
  | IDASVtolerances real "real list"
  | IDASStolerances real real
  | IDASetMaxNumSteps int
  | IDASetId "real list"
  | IDASpgmr int
  | IDASpbcg int
  | IDASptfqmr int
  | IDASpilsSetJacTimesVecFn
  | IDASpilsSetPreconditioner
  | AttachLinearSolver
  | IDAQuadInit "real list"
  | IDASetQuadErrCon bool
  | IDAQuadSStolerances real real
  | IDAAdjInit int interp
  | IDASolveF real
  | IDASolve real
  | IDAGetQuad
  | IDAGetIntegratorStats
  | IDASolveB real
  | IDAGetB int
  | IDAGetQuadB int
  | IDAGetIntegratorStatsB

text \<open>The name of the called function, as \<^verbatim>\<open>CASADI_ASSERT_STR(fcn)\<close> spells it.\<close>

fun call_name :: "call \<Rightarrow> string" where
  "call_name IDACreate = ''IDACreate''"
| "call_name IDASetErrHandlerFn = ''IDASetErrHandlerFn''"
| "call_name IDASetUserData = ''IDASetUserData''"
| "call_name (IDAInit _ _ _) = ''IDAInit''"
| "call_name (IDASetSuppressAlg _) = ''IDASetSuppressAlg''"
| "call_name (IDASetMaxOrd _) = ''IDASetMaxOrd''"
| "call_name (IDASetMaxStep _) = ''IDASetMaxStep''"
| "call_name (IDASVtolerances _ _) = ''IDASVtolerances''"
| "call_name (IDASStolerances _ _) = ''IDASStolerances''"
| "call_name (IDASetMaxNumSteps _) = ''IDASetMaxNumSteps''"
| "call_name (IDASetId _) = ''IDASetId''"
| "call_name (IDASpgmr _) = ''IDASpgmr''"
| "call_name (IDASpbcg _) = ''IDASpbcg''"
| "call_name (IDASptfqmr _) = ''IDASptfqmr''"
| "call_name IDASpilsSetJacTimesVecFn = ''IDASpilsSetJacTimesVecFn''"
| "call_name IDASpilsSetPreconditioner = ''IDASpilsSetPreconditioner''"
| "call_name AttachLinearSolver = ''''"
| "call_name (IDAQuadInit _) = ''IDAQuadInit''"
| "call_name (IDASetQuadErrCon _) = ''IDASetQuadErrCon''"
| "call_name (IDAQuadSStolerances _ _) = ''IDAQuadSStolerances''"
| "call_name (IDAAdjInit _ _) = ''IDAAdjInit''"
| "call_name (IDASolveF _) = ''IDASolveF''"
| "call_name (IDASolve _) = ''IDASolve''"
| "call_name IDAGetQuad = ''IDAGetQuad''"
| "call_name IDAGetIntegratorStats = ''IDAGetIntegratorStats''"
| "call_name (IDASolveB _) = ''IDASolveB''"
| "call_name (IDAGetB _) = ''IDAGetB''"
| "call_name (IDAGetQuadB _) = ''IDAGetQuadB''"
| "call_name IDAGetIntegratorStatsB = ''IDAGetIntegratorStats''"

text \<open>The diagnostic counters \<^verbatim>\<open>IDAGetIntegratorStats\<close> fills in.\<close>

record stats =
  nsteps :: int
  nfevals :: int
  nlinsetups :: int
  netfails :: int
  qlast :: int
  qcur :: int
  hinused :: real
  hlast :: real
  hcur :: real
  tcur :: real

text \<open>
  What a call hands back: its return value \<open>flag\<close> and the values it writes through
  its output arguments (\<open>r_t\<close> the time reached, \<open>r_y\<close> and \<open>r_yp\<close> the vectors,
  \<open>r_n\<close> an integer such as the checkpoint count, \<open>r_stats\<close> the counters). A call
  reads the fields its signature has and ignores the others.
\<close>

record reply =
  flag :: int
  r_t :: real
  r_y :: "real list"
  r_yp :: "real list"
  r_n :: int
  r_stats :: stats

text \<open>
  The environment of the interface: the solver (\<open>run\<close>), SUNDIALS'
  \<^verbatim>\<open>IDAGetReturnFlagName\<close> (\<open>flagname\<close>), and the expansion of the macro
  \<^verbatim>\<open>CASADI_ASSERT_WHERE\<close> at a line of the file (\<open>assert_where\<close>).
\<close>

record env =
  run :: "call list \<Rightarrow> call \<Rightarrow> reply"
  flagname :: "int \<Rightarrow> string"
  assert_where :: "nat \<Rightarrow> string"

text \<open>Modelled from the spec: the constant \<^verbatim>\<open>IDA_SUCCESS\<close> of the SUNDIALS header,
  the least return code that is a success ("a non-negative return code is success").\<close>

definition IDA_SUCCESS :: int where
  "IDA_SUCCESS = 0"

subsection \<open>\<^verbatim>\<open>IdasInterface::idas_error\<close> and the macro \<^verbatim>\<open>THROWING\<close>\<close>

definition idas_error :: "(int \<Rightarrow> string) \<Rightarrow> string \<Rightarrow> int \<Rightarrow> error + unit" where
  "idas_error fname modul flg =
     (if flg \<ge> IDA_SUCCESS then Inr ()
      else Inl (CasadiError
        [Str modul, Str ('' returned '' @ [CHR 0x22]), Str (fname flg), Str ([CHR 0x22] @ ''.''),
         Str '' Consult IDAS documentation.'']))"

subsection \<open>The interface object and its memory\<close>

text \<open>
  The fields of \<^verbatim>\<open>IdasInterface\<close> and of its base classes that the file reads (the
  trailing underscore of the C++ names is dropped). The three function fields are the
  collaborators reached through the object: \<^verbatim>\<open>calc_function(m, name)\<close>, which
  evaluates the model function \<open>name\<close> on the argument buffers and returns the result
  buffers or throws, and the linear solver functions \<^verbatim>\<open>linsolF\<close> and
  \<^verbatim>\<open>linsolB\<close> (selected by name): \<^verbatim>\<open>linsol_factorize\<close> on the Jacobian's
  nonzeros, and \<^verbatim>\<open>linsol_solve\<close>, a function of the matrix last factorized and of
  the right-hand side.
\<close>

record interface =
  nx :: nat
  nz :: nat
  nq :: nat
  nrx :: nat
  nrz :: nat
  nrq :: nat
  ns :: nat
  grid :: "real list"
  stop_at_end :: bool
  cj_scaling :: bool
  calc_ic :: bool
  calc_icB :: bool
  suppress_algebraic :: bool
  max_step_size :: real
  first_time :: real
  abstolv :: "real list"
  fsens_abstolv :: "real list"
  init_xdot :: "real list"
  abstol :: real
  reltol :: real
  max_multistep_order :: int
  max_num_steps :: int
  max_krylov :: int
  steps_per_checkpoint :: int
  iterative :: bool
  use_precon :: bool
  quad_err_con :: bool
  itsol :: itsol
  interp :: interp
  calc_function :: "string \<Rightarrow> real list list \<Rightarrow> thrown + real list list"
  linsol_factorize :: "string \<Rightarrow> real list \<Rightarrow> thrown + unit"
  linsol_solve :: "string \<Rightarrow> real list \<Rightarrow> real list \<Rightarrow> thrown + real list"

text \<open>
  \<^verbatim>\<open>IdasMemory\<close> with the fields of its base class that the file uses: \<^verbatim>\<open>m->t\<close> is
  \<open>m_t\<close>, and so on. \<open>m_mem\<close> is the IDAS memory block: the calls made on it so far. \<open>m_stats\<close> and \<open>m_statsB\<close> group the ten
  counters of the forward and of the backward problem. \<open>m_facF\<close> and \<open>m_facB\<close>
  are the matrices the two linear solvers factorized last.
\<close>

record memory =
  m_mem :: "call list"
  m_t :: real
  m_xz :: "real list"
  m_xzdot :: "real list"
  m_q :: "real list"
  m_rxz :: "real list"
  m_rxzdot :: "real list"
  m_rq :: "real list"
  m_p :: "real list"
  m_rp :: "real list"
  m_ncheck :: int
  m_whichB :: int
  m_first_callB :: bool
  m_stats :: stats
  m_statsB :: stats
  m_jac :: "real list"
  m_jacB :: "real list"
  m_facF :: "real list"
  m_facB :: "real list"

subsection \<open>Statements that may throw\<close>

text \<open>
  A statement of a member function takes the memory and gives it back, with
  \<open>Inl\<close> when it threw: what it wrote before throwing stays written.
\<close>

type_synonym action = "memory \<Rightarrow> (error + unit) \<times> memory"

definition skip :: action where
  "skip m = (Inr (), m)"

fun seq :: "action list \<Rightarrow> action" where
  "seq [] m = (Inr (), m)"
| "seq (a # as) m = (case a m of (Inl err, m') \<Rightarrow> (Inl err, m') | (Inr u, m') \<Rightarrow> seq as m')"

definition casadi_assert_message :: "bool \<Rightarrow> message \<Rightarrow> action" where
  "casadi_assert_message c msg m = (if c then (Inr (), m) else (Inl (AssertionFailed msg), m))"

text \<open>
  \<^verbatim>\<open>THROWING(fcn, ...)\<close> at line \<open>line\<close> of the file: the call is made on the memory
  block, its output arguments are written (\<open>out\<close>), and its return value goes to
  \<open>idas_error\<close> with the name of the function followed by the place of the call.
\<close>

definition THROWING :: "env \<Rightarrow> nat \<Rightarrow> call \<Rightarrow> (reply \<Rightarrow> memory \<Rightarrow> memory) \<Rightarrow> action" where
  "THROWING e line c out m =
     (let r = run e (m_mem m) c;
          m' = out r (m\<lparr>m_mem := m_mem m @ [c]\<rparr>)
      in (idas_error (flagname e) (call_name c @ assert_where e line) (flag r), m'))"

definition no_output :: "reply \<Rightarrow> memory \<Rightarrow> memory" where
  "no_output r m = m"

subsection \<open>Vector helpers\<close>

text \<open>\<^verbatim>\<open>casadi_copy(x, n, y)\<close>: the \<open>n\<close> first entries of \<open>x\<close>, as they arrive in \<open>y\<close>.\<close>

definition casadi_copy :: "real list \<Rightarrow> nat \<Rightarrow> real list" where
  "casadi_copy x n = take n x"

text \<open>\<^verbatim>\<open>casadi_axpy(n, alpha, x, y)\<close>: \<open>y[i] += alpha * x[i]\<close> for \<open>i < n\<close>.\<close>

definition casadi_axpy :: "nat \<Rightarrow> real \<Rightarrow> real list \<Rightarrow> real list \<Rightarrow> real list" where
  "casadi_axpy n alpha x y = map (\<lambda>i. if i < n then y ! i + alpha * x ! i else y ! i) [0..<length y]"

text \<open>\<^verbatim>\<open>casadi_scal(n, alpha, x)\<close>: \<open>x[i] *= alpha\<close> for \<open>i < n\<close>.\<close>

definition casadi_scal :: "nat \<Rightarrow> real \<Rightarrow> real list \<Rightarrow> real list" where
  "casadi_scal n alpha x = map (\<lambda>i. if i < n then alpha * x ! i else x ! i) [0..<length x]"

text \<open>\<^verbatim>\<open>N_VScale(c, x, z)\<close>: \<open>z[i] = c * x[i]\<close> for every \<open>i\<close>.\<close>

definition N_VScale :: "real \<Rightarrow> real list \<Rightarrow> real list" where
  "N_VScale c x = map (\<lambda>v. c * v) x"

subsection \<open>\<^verbatim>\<open>IdasInterface::advance\<close>\<close>

definition ttol :: real where
  "ttol = 1 / 1000000000"

text \<open>\<^verbatim>\<open>grid_.front()\<close> and \<^verbatim>\<open>grid_.back()\<close>; the grid of an integrator is not empty.\<close>

definition grid_front :: "real list \<Rightarrow> real" where
  "grid_front g = hd g"

definition grid_back :: "real list \<Rightarrow> real" where
  "grid_back g = last g"

definition msg_before_t0 :: "interface \<Rightarrow> real \<Rightarrow> message" where
  "msg_before_t0 s t =
     [Str ''IdasInterface::integrate('', Dbl t, Str ''): '',
      Str ''Cannot integrate to a time earlier than t0 ('', Dbl (grid_front (grid s)), Str '')'']"

definition msg_past_tf :: "interface \<Rightarrow> real \<Rightarrow> message" where
  "msg_past_tf s t =
     [Str ''IdasInterface::integrate('', Dbl t, Str ''): '',
      Str ''Cannot integrate past a time later than tf ('', Dbl (grid_back (grid s)), Str '') '',
      Str ''unless stop_at_end is set to False.'']"

text \<open>
  The value of \<open>advance\<close> is the content of the caller's buffers \<open>x\<close>, \<open>z\<close> and
  \<open>q\<close>, or the error thrown; the memory comes back in both cases.
\<close>

definition advance ::
  "interface \<Rightarrow> env \<Rightarrow> real \<Rightarrow> memory \<Rightarrow> (error + real list \<times> real list \<times> real list) \<times> memory" where
  "advance s e t m =
     (case seq
        [casadi_assert_message (t \<ge> grid_front (grid s)) (msg_before_t0 s t),
         casadi_assert_message (t \<le> grid_back (grid s) \<or> \<not> stop_at_end s) (msg_past_tf s t),
         if \<bar>m_t m - t\<bar> \<ge> ttol then
           seq
             [if nrx s > 0 then
                THROWING e 428 (IDASolveF t)
                  (\<lambda>r m. m\<lparr>m_t := r_t r, m_xz := r_y r, m_xzdot := r_yp r, m_ncheck := r_n r\<rparr>)
              else
                THROWING e 430 (IDASolve t)
                  (\<lambda>r m. m\<lparr>m_t := r_t r, m_xz := r_y r, m_xzdot := r_yp r\<rparr>),
              if nq s > 0 then THROWING e 436 IDAGetQuad (\<lambda>r m. m\<lparr>m_q := r_y r\<rparr>) else skip]
         else skip] m of
        (Inl err, m1) \<Rightarrow> (Inl err, m1)
      | (Inr u, m1) \<Rightarrow>
          (let x = casadi_copy (m_xz m1) (nx s);
               z = casadi_copy (drop (nx s) (m_xz m1)) (nz s);
               q = casadi_copy (m_q m1) (nq s)
           in case THROWING e 446 IDAGetIntegratorStats (\<lambda>r m. m\<lparr>m_stats := r_stats r\<rparr>) m1 of
                (Inl err, m2) \<Rightarrow> (Inl err, m2)
              | (Inr u, m2) \<Rightarrow> (Inr (x, z, q), m2)))"

subsection \<open>\<^verbatim>\<open>IdasInterface::retreat\<close>\<close>


subsection \<open>The callbacks the solver invokes\<close>

text \<open>
  A callback returns its \<^verbatim>\<open>int\<close>, the content of its output vector when it
  returns, and the lines it wrote to \<^verbatim>\<open>userOut<true, PL_WARN>()\<close>. A callback
  whose \<^verbatim>\<open>try\<close> block has no handler for a thrown value lets it escape into the
  solver: that is \<open>Inl\<close>. A collaborator that throws is taken to leave the output
  vector as it was.

  The result buffers \<^verbatim>\<open>m->res[k]\<close> point into the output vector: \<open>write_outputs\<close>
  stores the \<open>k\<close>-th result at the \<open>k\<close>-th offset.
\<close>

type_synonym 'a callback = "thrown + int \<times> 'a \<times> string list"

definition write_at :: "nat \<Rightarrow> real list \<Rightarrow> real list \<Rightarrow> real list" where
  "write_at off vals buf = take off buf @ vals @ drop (off + length vals) buf"

definition write_outputs :: "nat list \<Rightarrow> real list list \<Rightarrow> real list \<Rightarrow> real list" where
  "write_outputs offs outs buf = foldl (\<lambda>b (off, v). write_at off v b) buf (zip offs outs)"

definition res ::
  "interface \<Rightarrow> memory \<Rightarrow> real \<Rightarrow> real list \<Rightarrow> real list \<Rightarrow> real list \<Rightarrow> real list callback" where
  "res s m t xz xzdot rr =
     (case calc_function s ''daeF'' [take (nx s) xz, drop (nx s) xz, m_p m, [t]] of
        Inr outs \<Rightarrow> Inr (0, casadi_axpy (nx s) (- 1) xzdot (write_outputs [0, nx s] outs rr), [])
      | Inl (ThrowInt flg) \<Rightarrow> Inr (flg, rr, [])
      | Inl (ThrowExc what) \<Rightarrow> Inr (- 1, rr, [''res failed: '' @ what]))"

definition jtimes ::
  "interface \<Rightarrow> memory \<Rightarrow> real \<Rightarrow> real list \<Rightarrow> real list \<Rightarrow> real list \<Rightarrow> real list \<Rightarrow> real list
     \<Rightarrow> real \<Rightarrow> real list callback" where
  "jtimes s m t xz xzdot rr v Jv cj =
     (case calc_function s ''jtimesF''
             [[t], take (nx s) xz, drop (nx s) xz, m_p m, take (nx s) v, drop (nx s) v] of
        Inr outs \<Rightarrow> Inr (0, casadi_axpy (nx s) (- cj) v (write_outputs [0, nx s] outs Jv), [])
      | Inl (ThrowInt flg) \<Rightarrow> Inl (ThrowInt flg)
      | Inl (ThrowExc what) \<Rightarrow> Inr (1, Jv, [''jtimes failed: '' @ what]))"

definition jtimesB ::
  "interface \<Rightarrow> memory \<Rightarrow> real \<Rightarrow> real list \<Rightarrow> real list \<Rightarrow> real list \<Rightarrow> real list \<Rightarrow> real list
     \<Rightarrow> real list \<Rightarrow> real list \<Rightarrow> real \<Rightarrow> real list callback" where
  "jtimesB s m t xz xzdot xzB xzdotB resvalB vB JvB cjB =
     (case calc_function s ''jtimesB''
             [[t], take (nx s) xz, drop (nx s) xz, m_p m, take (nrx s) xzB, drop (nrx s) xzB, m_rp m,
              take (nrx s) vB, drop (nrx s) vB] of
        Inr outs \<Rightarrow> Inr (0, casadi_axpy (nrx s) cjB vB (write_outputs [0, nrx s] outs JvB), [])
      | Inl (ThrowInt flg) \<Rightarrow> Inl (ThrowInt flg)
      | Inl (ThrowExc what) \<Rightarrow> Inr (1, JvB, [''jtimesB failed: '' @ what]))"

definition rhsQ ::
  "interface \<Rightarrow> memory \<Rightarrow> real \<Rightarrow> real list \<Rightarrow> real list \<Rightarrow> real list \<Rightarrow> real list callback" where
  "rhsQ s m t xz xzdot rhsQ_out =
     (case calc_function s ''quadF'' [take (nx s) xz, drop (nx s) xz, m_p m, [t]] of
        Inr outs \<Rightarrow> Inr (0, write_outputs [0] outs rhsQ_out, [])
      | Inl (ThrowInt flg) \<Rightarrow> Inl (ThrowInt flg)
      | Inl (ThrowExc what) \<Rightarrow> Inr (1, rhsQ_out, [''rhsQ failed: '' @ what]))"

definition resB ::
  "interface \<Rightarrow> memory \<Rightarrow> real \<Rightarrow> real list \<Rightarrow> real list \<Rightarrow> real list \<Rightarrow> real list \<Rightarrow> real list
     \<Rightarrow> real list callback" where
  "resB s m t xz xzdot rxz rxzdot rr =
     (case calc_function s ''daeB''
             [take (nrx s) rxz, drop (nrx s) rxz, m_rp m, take (nx s) xz, drop (nx s) xz, m_p m, [t]] of
        Inr outs \<Rightarrow> Inr (0, casadi_axpy (nrx s) 1 rxzdot (write_outputs [0, nrx s] outs rr), [])
      | Inl (ThrowInt flg) \<Rightarrow> Inl (ThrowInt flg)
      | Inl (ThrowExc what) \<Rightarrow> Inr (1, rr, [''resB failed: '' @ what]))"

definition rhsQB ::
  "interface \<Rightarrow> memory \<Rightarrow> real \<Rightarrow> real list \<Rightarrow> real list \<Rightarrow> real list \<Rightarrow> real list \<Rightarrow> real list
     \<Rightarrow> real list callback" where
  "rhsQB s m t xz xzdot rxz rxzdot rqdot =
     (case calc_function s ''quadB''
             [take (nrx s) rxz, drop (nrx s) rxz, m_rp m, take (nx s) xz, drop (nx s) xz, m_p m, [t]] of
        Inr outs \<Rightarrow> Inr (0, casadi_scal (nrq s) (- 1) (write_outputs [0] outs rqdot), [])
      | Inl (ThrowInt flg) \<Rightarrow> Inl (ThrowInt flg)
      | Inl (ThrowExc what) \<Rightarrow> Inr (1, rqdot, [''rhsQB failed: '' @ what]))"

text \<open>
  \<open>psolve\<close> and \<open>psolveB\<close> solve in place in \<^verbatim>\<open>zvec\<close>, which holds the content of
  \<^verbatim>\<open>rvec\<close> when the solve starts: it is the same vector, or \<^verbatim>\<open>N_VScale(1.0, rvec, zvec)\<close>
  has copied it.
\<close>

definition psolve ::
  "interface \<Rightarrow> memory \<Rightarrow> real \<Rightarrow> real list \<Rightarrow> real list \<Rightarrow> real list \<Rightarrow> real list
     \<Rightarrow> real \<Rightarrow> real \<Rightarrow> real list callback" where
  "psolve s m t xz xzdot rr rvec cj delta =
     (case linsol_solve s ''linsolF'' (m_facF m) rvec of
        Inr zvec \<Rightarrow> Inr (0, zvec, [])
      | Inl (ThrowInt flg) \<Rightarrow> Inl (ThrowInt flg)
      | Inl (ThrowExc what) \<Rightarrow> Inr (1, rvec, [''psolve failed: '' @ what]))"

definition psolveB ::
  "interface \<Rightarrow> memory \<Rightarrow> real \<Rightarrow> real list \<Rightarrow> real list \<Rightarrow> real list \<Rightarrow> real list \<Rightarrow> real list
     \<Rightarrow> real list \<Rightarrow> real \<Rightarrow> real \<Rightarrow> real list callback" where
  "psolveB s m t xz xzdot xzB xzdotB resvalB rvecB cjB deltaB =
     (case linsol_solve s ''linsolB'' (m_facB m) rvecB of
        Inr zvecB \<Rightarrow> Inr (0, zvecB, [])
      | Inl (ThrowInt flg) \<Rightarrow> Inl (ThrowInt flg)
      | Inl (ThrowExc what) \<Rightarrow> Inr (1, rvecB, [''psolveB failed: '' @ what]))"

text \<open>\<open>psetup\<close> and \<open>psetupB\<close> write the Jacobian into the memory and factorize it.\<close>

definition psetup ::
  "interface \<Rightarrow> memory \<Rightarrow> real \<Rightarrow> real list \<Rightarrow> real list \<Rightarrow> real \<Rightarrow> memory callback" where
  "psetup s m t xz xzdot cj =
     (case calc_function s ''jacF'' [[t], take (nx s) xz, drop (nx s) xz, m_p m, [cj]] of
        Inr outs \<Rightarrow>
          (let m1 = m\<lparr>m_jac := write_outputs [0] outs (m_jac m)\<rparr> in
           case linsol_factorize s ''linsolF'' (m_jac m1) of
             Inr u \<Rightarrow> Inr (0, m1\<lparr>m_facF := m_jac m1\<rparr>, [])
           | Inl (ThrowInt flg) \<Rightarrow> Inl (ThrowInt flg)
           | Inl (ThrowExc what) \<Rightarrow> Inr (1, m1, [''psetup failed: '' @ what]))
      | Inl (ThrowInt flg) \<Rightarrow> Inl (ThrowInt flg)
      | Inl (ThrowExc what) \<Rightarrow> Inr (1, m, [''psetup failed: '' @ what]))"

definition psetupB ::
  "interface \<Rightarrow> memory \<Rightarrow> real \<Rightarrow> real list \<Rightarrow> real list \<Rightarrow> real list \<Rightarrow> real list \<Rightarrow> real
     \<Rightarrow> memory callback" where
  "psetupB s m t xz xzdot rxz rxzdot cj =
     (case calc_function s ''jacB''
             [[t], take (nrx s) rxz, drop (nrx s) rxz, m_rp m, take (nx s) xz, drop (nx s) xz, m_p m, [cj]] of
        Inr outs \<Rightarrow>
          (let m1 = m\<lparr>m_jacB := write_outputs [0] outs (m_jacB m)\<rparr> in
           case linsol_factorize s ''linsolB'' (m_jacB m1) of
             Inr u \<Rightarrow> Inr (0, m1\<lparr>m_facB := m_jacB m1\<rparr>, [])
           | Inl (ThrowInt flg) \<Rightarrow> Inl (ThrowInt flg)
           | Inl (ThrowExc what) \<Rightarrow> Inr (1, m1, [''psetupB failed: '' @ what]))
      | Inl (ThrowInt flg) \<Rightarrow> Inl (ThrowInt flg)
      | Inl (ThrowExc what) \<Rightarrow> Inr (1, m, [''psetupB failed: '' @ what]))"

subsection \<open>The hooks of the direct linear solver\<close>

text \<open>
  The fields of the solver's block that the four hooks read. For the backward hooks the
  record also holds what they reach through \<^verbatim>\<open>ida_user_data\<close> and \<^verbatim>\<open>ida_adj_mem\<close>:
  the flag \<^verbatim>\<open>ia_noInterp\<close>, the interpolation function \<^verbatim>\<open>ia_getY\<close> (at a time it
  returns its flag and the forward state and derivative it writes to \<^verbatim>\<open>ia_yyTmp\<close> and
  \<^verbatim>\<open>ia_ypTmp\<close>) and the present content of these two vectors.
\<close>

record ida_mem =
  ida_tn :: real
  ida_cj :: real
  ida_cjratio :: real
  ia_noInterp :: bool
  ia_getY :: "real \<Rightarrow> int \<times> real list \<times> real list"
  ia_yyTmp :: "real list"
  ia_ypTmp :: "real list"

definition lsetup ::
  "interface \<Rightarrow> memory \<Rightarrow> ida_mem \<Rightarrow> real list \<Rightarrow> real list \<Rightarrow> memory callback" where
  "lsetup s m IDA_mem xz xzdot =
     (let t = ida_tn IDA_mem;
          cj = ida_cj IDA_mem
      in case psetup s m t xz xzdot cj of
           Inr (ret, m1, out) \<Rightarrow> if ret \<noteq> 0 then Inr (1, m1, out) else Inr (0, m1, out)
         | Inl th \<Rightarrow> Inl th)"

text \<open>The forward state at the backward time, and whether the interpolation succeeded.\<close>

definition interpolate :: "ida_mem \<Rightarrow> real \<Rightarrow> bool \<times> real list \<times> real list" where
  "interpolate IDA_mem t =
     (if \<not> ia_noInterp IDA_mem then
        (case ia_getY IDA_mem t of (flg, yy, yp) \<Rightarrow> (flg = IDA_SUCCESS, yy, yp))
      else (True, ia_yyTmp IDA_mem, ia_ypTmp IDA_mem))"

definition lsetupB ::
  "interface \<Rightarrow> memory \<Rightarrow> ida_mem \<Rightarrow> real list \<Rightarrow> real list \<Rightarrow> memory callback" where
  "lsetupB s m IDA_mem xzB xzdotB =
     (let t = ida_tn IDA_mem;
          cj = ida_cj IDA_mem
      in case interpolate IDA_mem t of
           (False, yy, yp) \<Rightarrow>
             Inr (- 1, m, [''lsetupB failed: '' @ ''Could not interpolate forward states''])
         | (True, yy, yp) \<Rightarrow>
             (case psetupB s m t yy yp xzB xzdotB cj of
                Inr (ret, m1, out) \<Rightarrow> if ret \<noteq> 0 then Inr (1, m1, out) else Inr (0, m1, out)
              | Inl (ThrowInt flg) \<Rightarrow> Inl (ThrowInt flg)
              | Inl (ThrowExc what) \<Rightarrow> Inr (- 1, m, [''lsetupB failed: '' @ what])))"

text \<open>
  \<open>lsolve\<close> and \<open>lsolveB\<close> handle both a thrown \<^verbatim>\<open>int\<close> and a thrown exception, so
  nothing escapes them: their value is the returned \<^verbatim>\<open>int\<close>, the vector \<open>b\<close> and
  the text written.
\<close>

definition lsolve ::
  "interface \<Rightarrow> memory \<Rightarrow> ida_mem \<Rightarrow> real list \<Rightarrow> real list \<Rightarrow> real list \<Rightarrow> real list \<Rightarrow> real list
     \<Rightarrow> int \<times> real list \<times> string list" where
  "lsolve s m IDA_mem b weight xz xzdot rr =
     (let t = ida_tn IDA_mem;
          cj = ida_cj IDA_mem;
          delta = 0
      in case psolve s m t xz xzdot rr b cj delta of
           Inr (ret, b1, out) \<Rightarrow>
             if ret \<noteq> 0 then (1, b1, out)
             else
               (let b2 =
                      (if cj_scaling s then
                         (let cjratio = ida_cjratio IDA_mem
                          in if cjratio \<noteq> 1 then N_VScale (2 / (1 + cjratio)) b1 else b1)
                       else b1)
                in (0, b2, out))
         | Inl (ThrowInt wrn) \<Rightarrow> (wrn, b, [])
         | Inl (ThrowExc what) \<Rightarrow> (- 1, b, [''lsolve failed: '' @ what]))"

definition lsolveB ::
  "interface \<Rightarrow> memory \<Rightarrow> ida_mem \<Rightarrow> real list \<Rightarrow> real list \<Rightarrow> real list \<Rightarrow> real list \<Rightarrow> real list
     \<Rightarrow> int \<times> real list \<times> string list" where
  "lsolveB s m IDA_mem b weight xzB xzdotB rrB =
     (let t = ida_tn IDA_mem;
          cj = ida_cj IDA_mem;
          cjratio = ida_cjratio IDA_mem
      in case interpolate IDA_mem t of
           (False, yy, yp) \<Rightarrow>
             (- 1, b, [''lsolveB failed: '' @ ''Could not interpolate forward states''])
         | (True, yy, yp) \<Rightarrow>
             (let delta = 0
              in case psolveB s m t yy yp xzB xzdotB rrB b cj delta of
                   Inr (ret, b1, out) \<Rightarrow>
                     if ret \<noteq> 0 then (1, b1, out)
                     else
                       (let b2 =
                              (if cj_scaling s then
                                 (if cjratio \<noteq> 1 then N_VScale (2 / (1 + cjratio)) b1 else b1)
                               else b1)
                        in (0, b2, out))
                 | Inl (ThrowInt wrn) \<Rightarrow> (wrn, b, [])
                 | Inl (ThrowExc what) \<Rightarrow> (- 1, b, [''lsolveB failed: '' @ what])))"

subsection \<open>\<^verbatim>\<open>IdasInterface::init\<close>\<close>

text \<open>
  An option value (\<^verbatim>\<open>GenericType\<close>) and the dictionary of options, in the order of
  iteration. Reading a value at a type it does not have throws.
\<close>

datatype generic = GBool bool | GInt int | GDouble real | GDoubleVector "real list" | GString string

type_synonym dict = "(string \<times> generic) list"

definition msg_type :: message where
  "msg_type = [Str ''GenericType: type mismatch'']"

fun to_bool :: "generic \<Rightarrow> error + bool" where
  "to_bool (GBool b) = Inr b"
| "to_bool _ = Inl (AssertionFailed msg_type)"

fun to_double :: "generic \<Rightarrow> error + real" where
  "to_double (GDouble d) = Inr d"
| "to_double (GInt i) = Inr (of_int i)"
| "to_double _ = Inl (AssertionFailed msg_type)"

fun to_double_vector :: "generic \<Rightarrow> error + real list" where
  "to_double_vector (GDoubleVector v) = Inr v"
| "to_double_vector _ = Inl (AssertionFailed msg_type)"

text \<open>The body of the first loop over the options ("Read options").\<close>

definition read_option :: "string \<times> generic \<Rightarrow> interface \<Rightarrow> error + interface" where
  "read_option op s =
     (if fst op = ''init_xdot'' then
        (case to_double_vector (snd op) of Inl err \<Rightarrow> Inl err | Inr v \<Rightarrow> Inr (s\<lparr>init_xdot := v\<rparr>))
      else if fst op = ''cj_scaling'' then
        (case to_bool (snd op) of Inl err \<Rightarrow> Inl err | Inr b \<Rightarrow> Inr (s\<lparr>cj_scaling := b\<rparr>))
      else if fst op = ''calc_ic'' then
        (case to_bool (snd op) of Inl err \<Rightarrow> Inl err | Inr b \<Rightarrow> Inr (s\<lparr>calc_ic := b\<rparr>))
      else if fst op = ''suppress_algebraic'' then
        (case to_bool (snd op) of Inl err \<Rightarrow> Inl err | Inr b \<Rightarrow> Inr (s\<lparr>suppress_algebraic := b\<rparr>))
      else if fst op = ''max_step_size'' then
        (case to_double (snd op) of Inl err \<Rightarrow> Inl err | Inr d \<Rightarrow> Inr (s\<lparr>max_step_size := d\<rparr>))
      else if fst op = ''abstolv'' then
        (case to_double_vector (snd op) of Inl err \<Rightarrow> Inl err | Inr v \<Rightarrow> Inr (s\<lparr>abstolv := v\<rparr>))
      else if fst op = ''fsens_abstolv'' then
        (case to_double_vector (snd op) of Inl err \<Rightarrow> Inl err | Inr v \<Rightarrow> Inr (s\<lparr>fsens_abstolv := v\<rparr>))
      else Inr s)"

text \<open>The body of the second loop ("Read dependent options").\<close>

definition read_dependent_option :: "string \<times> generic \<Rightarrow> interface \<Rightarrow> error + interface" where
  "read_dependent_option op s =
     (if fst op = ''calc_icB'' then
        (case to_bool (snd op) of Inl err \<Rightarrow> Inl err | Inr b \<Rightarrow> Inr (s\<lparr>calc_icB := b\<rparr>))
      else if fst op = ''first_time'' then
        (case to_double (snd op) of Inl err \<Rightarrow> Inl err | Inr d \<Rightarrow> Inr (s\<lparr>first_time := d\<rparr>))
      else Inr s)"

text \<open>\<^verbatim>\<open>for (auto&& op : opts)\<close>, leaving at the first throw.\<close>

fun for_each :: "('a \<Rightarrow> interface \<Rightarrow> error + interface) \<Rightarrow> 'a list \<Rightarrow> interface \<Rightarrow> error + interface" where
  "for_each f [] s = Inr s"
| "for_each f (op # ops) s = (case f op s of Inl err \<Rightarrow> Inl err | Inr s1 \<Rightarrow> for_each f ops s1)"

definition msg_init_xdot :: "interface \<Rightarrow> message" where
  "msg_init_xdot s =
     [Str (''Option '' @ [CHR 0x22] @ ''init_xdot'' @ [CHR 0x22] @ '' has incorrect length. Expecting ''),
      Num (nx s), Str '', but got '', Num (length (init_xdot s)),
      Str ''. Note that this message may actually be generated by the augmented'',
      Str '' integrator. In that case, make use of the 'augmented_options' options'',
      Str '' to correct 'init_xdot' for the augmented integrator.'']"

text \<open>
  \<open>init\<close> starts from the object as \<^verbatim>\<open>SundialsInterface::init\<close> leaves it (dimensions,
  grid and the options of the base classes are set). The construction of the model
  functions (\<^verbatim>\<open>create_function\<close>, \<^verbatim>\<open>set_function\<close>, \<^verbatim>\<open>init_jacF\<close>,
  \<^verbatim>\<open>init_jacB\<close>) writes none of the fields of \<open>interface\<close> and is left out.
\<close>

definition init :: "interface \<Rightarrow> dict \<Rightarrow> error + interface" where
  "init s opts =
     (let s1 = s\<lparr>cj_scaling := False, calc_ic := True, suppress_algebraic := False, max_step_size := 0\<rparr>
      in case for_each read_option opts s1 of
           Inl err \<Rightarrow> Inl err
         | Inr s2 \<Rightarrow>
             (let s3 = s2\<lparr>calc_icB := calc_ic s2, first_time := grid_back (grid s2)\<rparr>
              in case for_each read_dependent_option opts s3 of
                   Inl err \<Rightarrow> Inl err
                 | Inr s4 \<Rightarrow>
                     if init_xdot s4 = [] then Inr (s4\<lparr>init_xdot := replicate (nx s4) 0\<rparr>)
                     else if length (init_xdot s4) = nx s4 then Inr s4
                     else Inl (AssertionFailed (msg_init_xdot s4))))"

subsection \<open>\<^verbatim>\<open>IdasInterface::init_memory\<close>\<close>

text \<open>A statement that does not throw; a call of the solver whose return value is dropped.\<close>

definition modify :: "(memory \<Rightarrow> memory) \<Rightarrow> action" where
  "modify f m = (Inr (), f m)"

definition ignoring_flag :: "call \<Rightarrow> action" where
  "ignoring_flag c m = (Inr (), m\<lparr>m_mem := m_mem m @ [c]\<rparr>)"

text \<open>\<^verbatim>\<open>N_VConst(c, v)\<close> on a vector of the length of \<open>v\<close>.\<close>

definition N_VConst :: "real \<Rightarrow> real list \<Rightarrow> real list" where
  "N_VConst c v = map (\<lambda>x. c) v"

text \<open>\<^verbatim>\<open>m->mem = IDACreate()\<close>: the reply's \<open>r_n\<close> is the pointer, \<open>0\<close> when null.\<close>

definition create :: "env \<Rightarrow> action" where
  "create e m =
     (let r = run e [] IDACreate
      in casadi_assert_message (r_n r \<noteq> 0) [Str ''IDACreate: Creation failed'']
           (m\<lparr>m_mem := [IDACreate]\<rparr>))"

text \<open>
  \<open>init_memory\<close> starts from the memory as \<^verbatim>\<open>SundialsInterface::init_memory\<close> leaves
  it (the vectors \<^verbatim>\<open>xz\<close>, \<^verbatim>\<open>q\<close>, \<^verbatim>\<open>rxz\<close> and \<^verbatim>\<open>rq\<close> are allocated).
\<close>

definition init_memory :: "interface \<Rightarrow> env \<Rightarrow> action" where
  "init_memory s e =
     seq
       [create e,
        THROWING e 281 IDASetErrHandlerFn no_output,
        THROWING e 284 IDASetUserData no_output,
        modify (\<lambda>m. m\<lparr>m_xz := N_VConst 0 (m_xz m), m_xzdot := replicate (nx s + nz s) 0\<rparr>),
        (\<lambda>m. ignoring_flag (IDAInit 0 (m_xz m) (m_xzdot m)) m),
        THROWING e 297 (IDASetSuppressAlg (suppress_algebraic s)) no_output,
        THROWING e 300 (IDASetMaxOrd (max_multistep_order s)) no_output,
        THROWING e 303 (IDASetMaxStep (max_step_size s)) no_output,
        if abstolv s \<noteq> [] then THROWING e 309 (IDASVtolerances (reltol s) (abstolv s)) no_output
        else THROWING e 313 (IDASStolerances (reltol s) (abstol s)) no_output,
        THROWING e 317 (IDASetMaxNumSteps (max_num_steps s)) no_output,
        THROWING e 325 (IDASetId (replicate (nx s) 1 @ replicate (nz s) 0)) no_output,
        if iterative s then
          seq
            [case itsol s of
               SD_GMRES \<Rightarrow> THROWING e 333 (IDASpgmr (max_krylov s)) no_output
             | SD_BCGSTAB \<Rightarrow> THROWING e 334 (IDASpbcg (max_krylov s)) no_output
             | SD_TFQMR \<Rightarrow> THROWING e 335 (IDASptfqmr (max_krylov s)) no_output,
             THROWING e 337 IDASpilsSetJacTimesVecFn no_output,
             if use_precon s then THROWING e 338 IDASpilsSetPreconditioner no_output else skip]
        else ignoring_flag AttachLinearSolver,
        if nq s > 0 then
          seq
            [(\<lambda>m. THROWING e 351 (IDAQuadInit (m_q m)) no_output m),
             if quad_err_con s then
               seq
                 [THROWING e 355 (IDASetQuadErrCon True) no_output,
                  THROWING e 359 (IDAQuadSStolerances (reltol s) (abstol s)) no_output]
             else skip]
        else skip,
        if nrx s > 0 then
          modify (\<lambda>m. m\<lparr>m_rxz := N_VConst 0 (m_rxz m), m_rxzdot := replicate (nrx s + nrz s) 0\<rparr>)
        else skip,
        if nrx s > 0 then
          THROWING e 376 (IDAAdjInit (steps_per_checkpoint s) (interp s)) no_output
        else skip,
        modify (\<lambda>m. m\<lparr>m_first_callB := True\<rparr>)]"

subsection \<open>\<^verbatim>\<open>IdasInterface::getJacF\<close> and \<^verbatim>\<open>IdasInterface::getJacB\<close>\<close>

text \<open>
  The two functions build a symbolic expression of the inputs of the model and of the
  symbol \<open>cj\<close>. The embedding takes the expression at a point: \<open>J out inp\<close> is the
  value there of \<^verbatim>\<open>MatType::jacobian(r[out], a[inp])\<close>, and the result is the value of
  the matrix the generated function returns. A matrix is the list of its rows.
\<close>

datatype dae_in = DE_X | DE_Z | DE_P | DE_T | DE_RX | DE_RZ | DE_RP

datatype dae_out = DE_ODE | DE_ALG | DE_QUAD | DE_RODE | DE_RALG | DE_RQUAD

type_synonym matrix = "real list list"

type_synonym sparsity = "bool list list"

text \<open>
  Modelled from the spec: the matrix operations of CasADi's core, which are not in this
  file. \<open>eye\<close> is the identity, \<open>vertcat\<close> and \<open>horzcat\<close> are the vertical and the
  horizontal concatenation, \<open>diagcat\<close> is the block-diagonal concatenation of sparsity
  patterns, and \<open>project\<close> keeps the entries of a matrix that lie in a pattern and puts
  zero elsewhere.
\<close>

definition eye :: "nat \<Rightarrow> matrix" where
  "eye n = map (\<lambda>i. map (\<lambda>j. if i = j then 1 else 0) [0..<n]) [0..<n]"

definition mat_scale :: "real \<Rightarrow> matrix \<Rightarrow> matrix" where
  "mat_scale c A = map (map (\<lambda>v. c * v)) A"

definition mat_minus :: "matrix \<Rightarrow> matrix \<Rightarrow> matrix" where
  "mat_minus A B = map2 (map2 (\<lambda>a b. a - b)) A B"

definition mat_plus :: "matrix \<Rightarrow> matrix \<Rightarrow> matrix" where
  "mat_plus A B = map2 (map2 (\<lambda>a b. a + b)) A B"

definition vertcat :: "'a list list \<Rightarrow> 'a list list \<Rightarrow> 'a list list" where
  "vertcat A B = A @ B"

definition horzcat :: "'a list list \<Rightarrow> 'a list list \<Rightarrow> 'a list list" where
  "horzcat A B = map2 (\<lambda>a b. a @ b) A B"

definition ncols :: "'a list list \<Rightarrow> nat" where
  "ncols A = (case A of [] \<Rightarrow> 0 | r # rs \<Rightarrow> length r)"

fun diagcat :: "sparsity list \<Rightarrow> sparsity" where
  "diagcat [] = []"
| "diagcat (S # Ss) =
     (let R = diagcat Ss
      in map (\<lambda>r. r @ replicate (ncols R) False) S @ map (\<lambda>r. replicate (ncols S) False @ r) R)"

definition project :: "matrix \<Rightarrow> sparsity \<Rightarrow> matrix" where
  "project A sp = map2 (map2 (\<lambda>a keep. if keep then a else 0)) A sp"

text \<open>
  \<open>sp_new\<close> is \<^verbatim>\<open>derivative_of_.get_function("jacF").sparsity_out(0)\<close> (for the
  backward Jacobian, of \<^verbatim>\<open>"jacB"\<close>): the pattern of the Jacobian of the integrator
  this one was derived from.
\<close>

definition getJacF :: "interface \<Rightarrow> (dae_out \<Rightarrow> dae_in \<Rightarrow> matrix) \<Rightarrow> sparsity \<Rightarrow> real \<Rightarrow> matrix" where
  "getJacF s J sp_new cj =
     (let jac = mat_minus (J DE_ODE DE_X) (mat_scale cj (eye (nx s)));
          jac1 =
            (if nz s > 0 then
               horzcat (vertcat jac (J DE_ALG DE_X)) (vertcat (J DE_ODE DE_Z) (J DE_ALG DE_Z))
             else jac)
      in if ns s > 0 \<and> nz s = 0 then project jac1 (diagcat (replicate (1 + ns s) sp_new))
         else jac1)"

definition getJacB :: "interface \<Rightarrow> (dae_out \<Rightarrow> dae_in \<Rightarrow> matrix) \<Rightarrow> sparsity \<Rightarrow> real \<Rightarrow> matrix" where
  "getJacB s J sp_new cj =
     (let jac = mat_plus (J DE_RODE DE_RX) (mat_scale cj (eye (nrx s)));
          jac1 =
            (if nrz s > 0 then
               horzcat (vertcat jac (J DE_RALG DE_RX)) (vertcat (J DE_RODE DE_RZ) (J DE_RALG DE_RZ))
             else jac)
      in if ns s > 0 \<and> nrz s = 0 then project jac1 (diagcat (replicate (1 + ns s) sp_new))
         else jac1)"

subsection \<open>Observing the calls of the solver\<close>

text \<open>The calls a member function added to the memory block, from \<open>m\<close> to \<open>m'\<close>.\<close>

definition new_calls :: "memory \<Rightarrow> memory \<Rightarrow> call list" where
  "new_calls m m' = drop (length (m_mem m)) (m_mem m')"

text \<open>The forward step of the solver, and the backward step with its retrievals.\<close>

fun is_step :: "call \<Rightarrow> bool" where
  "is_step (IDASolve t) = True"
| "is_step (IDASolveF t) = True"
| "is_step c = False"


subsection \<open>A sample session\<close>

text \<open>
  A small session at which the theorems below are instantiated: one differential state,
  one quadrature, a backward problem, the grid \<open>[0, 10]\<close>, and a solver that reaches the
  time it is asked for and accepts every call.
\<close>

definition sample_stats :: stats where
  "sample_stats =
     \<lparr>nsteps = 5, nfevals = 7, nlinsetups = 2, netfails = 0, qlast = 1, qcur = 1,
      hinused = 1, hlast = 1, hcur = 1, tcur = 1\<rparr>"

definition sample_reply :: "real \<Rightarrow> reply" where
  "sample_reply t = \<lparr>flag = 0, r_t = t, r_y = [4], r_yp = [0], r_n = 1, r_stats = sample_stats\<rparr>"

definition sample_run :: "call list \<Rightarrow> call \<Rightarrow> reply" where
  "sample_run h c =
     (case c of IDASolve t \<Rightarrow> sample_reply t | IDASolveF t \<Rightarrow> sample_reply t | _ \<Rightarrow> sample_reply 1)"

definition sample_flagname :: "int \<Rightarrow> string" where
  "sample_flagname flg = (if flg = - 1 then ''IDA_TOO_MUCH_WORK'' else ''NONE'')"

definition sample_env :: env where
  "sample_env =
     \<lparr>run = sample_run, flagname = sample_flagname,
      assert_where = (\<lambda>line. '' in idas_interface.cpp'')\<rparr>"

definition sample_calc :: "string \<Rightarrow> real list list \<Rightarrow> thrown + real list list" where
  "sample_calc name args =
     (if name = ''quadB'' then Inr [[3]]
      else if name = ''daeF'' then Inl (ThrowInt 2)
      else Inl (ThrowExc ''boom''))"

definition sample_solve :: "string \<Rightarrow> real list \<Rightarrow> real list \<Rightarrow> thrown + real list" where
  "sample_solve name A b = (if name = ''linsolF'' then Inr (map (\<lambda>v. 2 * v) b) else Inr b)"

definition sample_interface :: interface where
  "sample_interface =
     \<lparr>nx = 1, nz = 0, nq = 1, nrx = 1, nrz = 0, nrq = 1, ns = 0, grid = [0, 10],
      stop_at_end = True, cj_scaling = True, calc_ic = True, calc_icB = True,
      suppress_algebraic = False, max_step_size = 0, first_time = 10, abstolv = [],
      fsens_abstolv = [], init_xdot = [], abstol = 1 / 100000000, reltol = 1 / 1000000,
      max_multistep_order = 5, max_num_steps = 10000, max_krylov = 10,
      steps_per_checkpoint = 20, iterative = False, use_precon = True, quad_err_con = False,
      itsol = SD_GMRES, interp = SD_HERMITE, calc_function = sample_calc,
      linsol_factorize = (\<lambda>name A. Inr ()), linsol_solve = sample_solve\<rparr>"

definition sample_memory :: memory where
  "sample_memory =
     \<lparr>m_mem = [], m_t = 0, m_xz = [1], m_xzdot = [0], m_q = [0], m_rxz = [0], m_rxzdot = [0],
      m_rq = [0], m_p = [], m_rp = [], m_ncheck = 0, m_whichB = 0, m_first_callB = True,
      m_stats = sample_stats, m_statsB = sample_stats, m_jac = [0], m_jacB = [0],
      m_facF = [1], m_facB = [1]\<rparr>"

definition sample_ida_mem :: ida_mem where
  "sample_ida_mem =
     \<lparr>ida_tn = 1, ida_cj = 2, ida_cjratio = 3, ia_noInterp = False,
      ia_getY = (\<lambda>t. (0, [1], [0])), ia_yyTmp = [0], ia_ypTmp = [0]\<rparr>"

text \<open>A solver that fails every call with the flag \<open>-1\<close>.\<close>

definition failing_env :: env where
  "failing_env = sample_env\<lparr>run := (\<lambda>h c. (sample_reply 1)\<lparr>flag := - 1\<rparr>)\<rparr>"


text \<open>An interface whose model functions, except \<open>jacF\<close>, and whose linear solver throw
  an exception.\<close>

definition throwing_interface :: interface where
  "throwing_interface =
     sample_interface
       \<lparr>calc_function := (\<lambda>name args. if name = ''jacF'' then Inr [[5]] else Inl (ThrowExc ''boom'')),
        linsol_factorize := (\<lambda>name A. Inl (ThrowExc ''singular'')),
        linsol_solve := (\<lambda>name A b. Inl (ThrowExc ''singular''))\<rparr>"

subsection \<open>The table of options\<close>

text \<open>
  The entries \<^verbatim>\<open>IdasInterface::options_\<close> adds to the table of the base class, with
  their types. An option the user gives is checked against the table before \<open>init\<close>
  reads it: \<open>well_typed\<close> says that every entry of the dictionary that the table lists
  has the listed type. The keys of a dictionary are pairwise distinct.
\<close>

datatype otype = OT_BOOL | OT_DOUBLE | OT_DOUBLEVECTOR

definition options :: "(string \<times> otype) list" where
  "options =
     [(''suppress_algebraic'', OT_BOOL),
      (''calc_ic'', OT_BOOL),
      (''calc_icB'', OT_BOOL),
      (''abstolv'', OT_DOUBLEVECTOR),
      (''fsens_abstolv'', OT_DOUBLEVECTOR),
      (''max_step_size'', OT_DOUBLE),
      (''first_time'', OT_DOUBLE),
      (''cj_scaling'', OT_BOOL),
      (''extra_fsens_calc_ic'', OT_BOOL),
      (''init_xdot'', OT_DOUBLEVECTOR)]"

fun has_type :: "otype \<Rightarrow> generic \<Rightarrow> bool" where
  "has_type OT_BOOL (GBool b) = True"
| "has_type OT_DOUBLE (GDouble d) = True"
| "has_type OT_DOUBLE (GInt i) = True"
| "has_type OT_DOUBLEVECTOR (GDoubleVector v) = True"
| "has_type ty g = False"

definition entry_ok :: "string \<times> generic \<Rightarrow> bool" where
  "entry_ok op = (case map_of options (fst op) of None \<Rightarrow> True | Some ty \<Rightarrow> has_type ty (snd op))"

definition well_typed :: "dict \<Rightarrow> bool" where
  "well_typed opts = (list_all entry_ok opts \<and> distinct (map fst opts))"

subsection \<open>A session with forward sensitivities\<close>

text \<open>
  An integrator augmented with one sensitivity direction (\<open>ns = 1\<close>), two differential
  states and no algebraic one. The Jacobian of the base integrator is 1 by 1; the partial
  derivative of \<open>ode\<close> with respect to \<open>x\<close> has an entry below the diagonal blocks.
\<close>

definition sens_interface :: interface where
  "sens_interface = sample_interface\<lparr>nx := 2, ns := 1\<rparr>"

definition sens_J :: "dae_out \<Rightarrow> dae_in \<Rightarrow> matrix" where
  "sens_J out inp =
     (if out = DE_ODE \<and> inp = DE_X then [[1, 0], [7, 1]]
      else if out = DE_ODE \<and> inp = DE_Z then [[], []]
      else if out = DE_RODE \<and> inp = DE_RX then [[1]]
      else if out = DE_RODE \<and> inp = DE_RZ then [[]]
      else [])"

text \<open>A model with one differential and one algebraic state, forward and backward.\<close>

definition dae_interface :: interface where
  "dae_interface = sample_interface\<lparr>nz := 1, nrz := 1\<rparr>"

definition dae_J :: "dae_out \<Rightarrow> dae_in \<Rightarrow> matrix" where
  "dae_J out inp =
     (if inp = DE_X \<or> inp = DE_RX then (if out = DE_ODE \<or> out = DE_RODE then [[1]] else [[3]])
      else (if out = DE_ODE \<or> out = DE_RODE then [[2]] else [[4]]))"

text \<open>\<open>is_mat r c A\<close>: the matrix \<open>A\<close> has \<open>r\<close> rows and \<open>c\<close> columns.\<close>

definition is_mat :: "nat \<Rightarrow> nat \<Rightarrow> 'a list list \<Rightarrow> bool" where
  "is_mat r c A = (length A = r \<and> list_all (\<lambda>row. length row = c) A)"

section \<open>Properties\<close>

subsection \<open>Shared facts about \<open>advance\<close>\<close>

lemmas advance_unfold =
  advance_def casadi_assert_message_def THROWING_def idas_error_def skip_def Let_def

lemmas sample_unfold =
  sample_interface_def sample_env_def sample_memory_def sample_run_def sample_reply_def
  sample_flagname_def grid_front_def grid_back_def ttol_def IDA_SUCCESS_def

lemma advance_at_time:
  assumes "\<bar>m_t m - t\<bar> < ttol"
  shows "advance s e t m = (r, m') \<Longrightarrow>
     m_mem m' = m_mem m @ new_calls m m' \<and> set (new_calls m m') \<subseteq> {IDAGetIntegratorStats} \<and>
     m_t m' = m_t m \<and> m_xz m' = m_xz m \<and> m_xzdot m' = m_xzdot m \<and> m_q m' = m_q m"
  using assms
  by (auto simp: advance_unfold new_calls_def split: prod.splits sum.splits if_splits)

lemma advance_calls:
  "advance s e t m = (r, m') \<Longrightarrow>
     m_mem m' = m_mem m @ new_calls m m' \<and> length (filter is_step (new_calls m m')) \<le> 1"
  by (auto simp: advance_unfold new_calls_def split: prod.splits sum.splits if_splits)

lemma new_calls_trans:
  assumes "m_mem m1 = m_mem m @ new_calls m m1" and "m_mem m2 = m_mem m1 @ new_calls m1 m2"
  shows "new_calls m m2 = new_calls m m1 @ new_calls m1 m2"
proof -
  have "m_mem m2 = m_mem m @ (new_calls m m1 @ new_calls m1 m2)"
    using assms by simp
  then show ?thesis
    unfolding new_calls_def [of m m2] by simp
qed

subsection \<open>Advancing twice to the same time\<close>

text \<open>
  C1. Two calls of \<open>advance\<close> in immediate succession with the same target time \<open>t\<close>,
  where the first leaves the current time \<open>m_t\<close> within \<open>ttol = 1e-9\<close> of \<open>t\<close>: over the
  two calls the solver steps (\<open>IDASolve\<close> or \<open>IDASolveF\<close>) at most once; the second call
  makes no step and no quadrature retrieval (\<open>IDAGetQuad\<close>), the only call it can make is
  the statistics query, and it leaves time, state, derivative and quadratures as they
  were.
\<close>

theorem advance_twice_same_time:
  assumes first: "advance s e t m = (r1, m1)"
    and reached: "\<bar>m_t m1 - t\<bar> < ttol"
    and second: "advance s e t m1 = (r2, m2)"
  shows "length (filter is_step (new_calls m m2)) \<le> 1 \<and>
         filter is_step (new_calls m1 m2) = [] \<and>
         IDAGetQuad \<notin> set (new_calls m1 m2) \<and>
         set (new_calls m1 m2) \<subseteq> {IDAGetIntegratorStats} \<and>
         m_t m2 = m_t m1 \<and> m_xz m2 = m_xz m1 \<and> m_xzdot m2 = m_xzdot m1 \<and> m_q m2 = m_q m1"
proof -
  from advance_calls [OF first]
  have c1: "m_mem m1 = m_mem m @ new_calls m m1"
    and n1: "length (filter is_step (new_calls m m1)) \<le> 1"
    by simp_all
  from advance_at_time [OF reached second]
  have c2: "m_mem m2 = m_mem m1 @ new_calls m1 m2"
    and only: "set (new_calls m1 m2) \<subseteq> {IDAGetIntegratorStats}"
    and same: "m_t m2 = m_t m1" "m_xz m2 = m_xz m1" "m_xzdot m2 = m_xzdot m1" "m_q m2 = m_q m1"
    by simp_all
  from only have nostep: "filter is_step (new_calls m1 m2) = []"
    by (auto simp: filter_empty_conv)
  from only have noquad: "IDAGetQuad \<notin> set (new_calls m1 m2)"
    by auto
  have "new_calls m m2 = new_calls m m1 @ new_calls m1 m2"
    by (rule new_calls_trans [OF c1 c2])
  with n1 nostep have "length (filter is_step (new_calls m m2)) \<le> 1"
    by simp
  with nostep noquad only same show ?thesis
    by simp
qed

text \<open>In the sample session the first call steps to time 5 and the second only reads the
  statistics.\<close>

theorem advance_twice_same_time_witness:
  "\<bar>m_t (snd (advance sample_interface sample_env 5 sample_memory)) - 5\<bar> < ttol \<and>
   new_calls sample_memory (snd (advance sample_interface sample_env 5 sample_memory)) =
     [IDASolveF 5, IDAGetQuad, IDAGetIntegratorStats] \<and>
   new_calls (snd (advance sample_interface sample_env 5 sample_memory))
     (snd (advance sample_interface sample_env 5
        (snd (advance sample_interface sample_env 5 sample_memory)))) =
     [IDAGetIntegratorStats] \<and>
   length (filter is_step (new_calls sample_memory
     (snd (advance sample_interface sample_env 5
        (snd (advance sample_interface sample_env 5 sample_memory)))))) \<le> 1"
proof -
  define m1 where "m1 = snd (advance sample_interface sample_env 5 sample_memory)"
  define m2 where "m2 = snd (advance sample_interface sample_env 5 m1)"
  have m1: "m1 = sample_memory\<lparr>m_mem := [IDASolveF 5, IDAGetQuad, IDAGetIntegratorStats],
        m_t := 5, m_xz := [4], m_xzdot := [0], m_ncheck := 1, m_q := [4], m_stats := sample_stats\<rparr>"
    unfolding m1_def by (simp add: advance_unfold sample_unfold)
  have h1: "advance sample_interface sample_env 5 sample_memory =
      (fst (advance sample_interface sample_env 5 sample_memory), m1)"
    by (simp add: m1_def)
  have h2: "\<bar>m_t m1 - 5\<bar> < ttol"
    by (simp add: m1 ttol_def)
  have h3: "advance sample_interface sample_env 5 m1 =
      (fst (advance sample_interface sample_env 5 m1), m2)"
    by (simp add: m2_def)
  have m2: "new_calls m1 m2 = [IDAGetIntegratorStats]"
    unfolding m2_def m1 by (simp add: advance_unfold sample_unfold new_calls_def)
  have n1: "new_calls sample_memory m1 = [IDASolveF 5, IDAGetQuad, IDAGetIntegratorStats]"
    by (simp add: m1 new_calls_def sample_memory_def)
  from advance_twice_same_time [OF h1 h2 h3] h2 m2 n1 show ?thesis
    unfolding m1_def [symmetric] m2_def [symmetric] by simp
qed

subsection \<open>Time ordering\<close>

text \<open>
  C2. \<open>advance\<close> to a time \<open>t\<close> before the start \<open>grid_front (grid s)\<close> fails with the
  assertion "Cannot integrate to a time earlier than t0"; to a time after the end
  \<open>grid_back (grid s)\<close> it fails with the assertion "Cannot integrate past a time later
  than tf" when \<open>stop_at_end\<close> is set, and with neither assertion when it is not set. A
  failing check returns the memory as it was: no call has been made on the solver.
\<close>

theorem advance_time_ordering:
  assumes "grid s \<noteq> []"
  shows "(t < grid_front (grid s) \<longrightarrow>
           advance s e t m = (Inl (AssertionFailed (msg_before_t0 s t)), m)) \<and>
         (grid_front (grid s) \<le> t \<and> grid_back (grid s) < t \<and> stop_at_end s \<longrightarrow>
           advance s e t m = (Inl (AssertionFailed (msg_past_tf s t)), m)) \<and>
         (grid_back (grid s) < t \<and> stop_at_end s \<longrightarrow>
           (\<exists>msg. advance s e t m = (Inl (AssertionFailed msg), m))) \<and>
         (grid_front (grid s) \<le> t \<and> grid_back (grid s) < t \<and> \<not> stop_at_end s \<longrightarrow>
           (\<forall>msg. fst (advance s e t m) \<noteq> Inl (AssertionFailed msg)))"
  by (auto simp: advance_unfold split: prod.splits sum.splits if_splits)

theorem advance_time_ordering_witness:
  "grid sample_interface \<noteq> [] \<and>
   - 1 < grid_front (grid sample_interface) \<and>
   advance sample_interface sample_env (- 1) sample_memory =
     (Inl (AssertionFailed (msg_before_t0 sample_interface (- 1))), sample_memory) \<and>
   grid_front (grid sample_interface) \<le> 11 \<and> grid_back (grid sample_interface) < 11 \<and>
   stop_at_end sample_interface \<and>
   advance sample_interface sample_env 11 sample_memory =
     (Inl (AssertionFailed (msg_past_tf sample_interface 11)), sample_memory) \<and>
   \<not> stop_at_end (sample_interface\<lparr>stop_at_end := False\<rparr>) \<and>
   fst (advance (sample_interface\<lparr>stop_at_end := False\<rparr>) sample_env 11 sample_memory) =
     Inr ([4], [], [4])"
proof -
  have g: "grid sample_interface \<noteq> []"
    by (simp add: sample_interface_def)
  have g': "grid (sample_interface\<lparr>stop_at_end := False\<rparr>) \<noteq> []"
    by (simp add: sample_interface_def)
  have run: "fst (advance (sample_interface\<lparr>stop_at_end := False\<rparr>) sample_env 11 sample_memory) =
     Inr ([4], [], [4])"
    by (simp add: advance_unfold sample_unfold casadi_copy_def)
  from advance_time_ordering [OF g, of "- 1" sample_env sample_memory]
    advance_time_ordering [OF g, of 11 sample_env sample_memory]
    advance_time_ordering [OF g', of 11 sample_env sample_memory] g run
  show ?thesis
    by (simp add: sample_interface_def grid_front_def grid_back_def)
qed

subsection \<open>Translation of the solver's return codes\<close>

text \<open>
  C6. \<open>idas_error\<close> returns without effect on a non-negative return code, and on a
  negative one raises an error whose message holds the module string and the solver's
  name of the flag. A wrapped call (\<open>THROWING\<close>) therefore succeeds when the solver's
  return code is non-negative, and otherwise raises an error whose message holds the
  name of the called function with the place of the call, and the name of the flag.
\<close>

theorem idas_error_translation:
  "(0 \<le> flg \<longrightarrow> idas_error fname modul flg = Inr ()) \<and>
   (flg < 0 \<longrightarrow>
      (\<exists>msg. idas_error fname modul flg = Inl (CasadiError msg) \<and>
             Str modul \<in> set msg \<and> Str (fname flg) \<in> set msg)) \<and>
   (0 \<le> flag (run e (m_mem m) c) \<longrightarrow> fst (THROWING e line c out m) = Inr ()) \<and>
   (flag (run e (m_mem m) c) < 0 \<longrightarrow>
      (\<exists>msg. fst (THROWING e line c out m) = Inl (CasadiError msg) \<and>
             Str (call_name c @ assert_where e line) \<in> set msg \<and>
             Str (flagname e (flag (run e (m_mem m) c))) \<in> set msg))"
  by (simp add: idas_error_def THROWING_def IDA_SUCCESS_def Let_def)

theorem idas_error_translation_witness:
  "(0::int) \<le> 1 \<and> idas_error sample_flagname ''IDASolve'' 1 = Inr () \<and>
   (- 1 :: int) < 0 \<and>
   idas_error sample_flagname ''IDASolve'' (- 1) =
     Inl (CasadiError [Str ''IDASolve'', Str ('' returned '' @ [CHR 0x22]),
        Str ''IDA_TOO_MUCH_WORK'', Str ([CHR 0x22] @ ''.''), Str '' Consult IDAS documentation.'']) \<and>
   0 \<le> flag (run sample_env (m_mem sample_memory) (IDASolve 1)) \<and>
   fst (THROWING sample_env 430 (IDASolve 1) no_output sample_memory) = Inr () \<and>
   flag (run failing_env (m_mem sample_memory) (IDASolve 1)) < 0 \<and>
   fst (THROWING failing_env 430 (IDASolve 1) no_output sample_memory) =
     Inl (CasadiError [Str ''IDASolve in idas_interface.cpp'', Str ('' returned '' @ [CHR 0x22]),
        Str ''IDA_TOO_MUCH_WORK'', Str ([CHR 0x22] @ ''.''), Str '' Consult IDAS documentation.''])"
  using idas_error_translation [of 1 sample_flagname "''IDASolve''" sample_env sample_memory
      "IDASolve 1" 430 no_output]
    idas_error_translation [of "- 1" sample_flagname "''IDASolve''" failing_env sample_memory
      "IDASolve 1" 430 no_output]
  by (simp add: idas_error_def THROWING_def sample_unfold failing_env_def)

subsection \<open>Retreating\<close>





subsection \<open>Scaling of the correction in the direct linear solve\<close>

text \<open>
  C4. When the linear solve succeeds with the vector \<open>b1\<close> (and, for the backward hook,
  the forward state could be interpolated), \<open>lsolve\<close> and \<open>lsolveB\<close> return \<open>0\<close> and the
  vector \<open>b1\<close> scaled by \<open>2 / (1 + cjratio)\<close> if \<open>cj_scaling\<close> is set and \<open>cjratio\<close> is
  not \<open>1\<close>, and \<open>b1\<close> itself otherwise. (\<open>cjratio = -1\<close>, where the factor is a division
  by zero, is excluded.)
\<close>

theorem lsolve_cj_scaling:
  assumes "ida_cjratio IDA_mem \<noteq> - 1"
  shows "(linsol_solve s ''linsolF'' (m_facF m) b = Inr b1 \<longrightarrow>
            lsolve s m IDA_mem b weight xz xzdot rr =
              (0,
               if cj_scaling s \<and> ida_cjratio IDA_mem \<noteq> 1
               then map (\<lambda>v. 2 / (1 + ida_cjratio IDA_mem) * v) b1 else b1,
               [])) \<and>
         (fst (interpolate IDA_mem (ida_tn IDA_mem)) \<and>
          linsol_solve s ''linsolB'' (m_facB m) b = Inr b1 \<longrightarrow>
            lsolveB s m IDA_mem b weight xz xzdot rr =
              (0,
               if cj_scaling s \<and> ida_cjratio IDA_mem \<noteq> 1
               then map (\<lambda>v. 2 / (1 + ida_cjratio IDA_mem) * v) b1 else b1,
               []))"
  by (auto simp: lsolve_def lsolveB_def psolve_def psolveB_def N_VScale_def Let_def
      split: prod.splits sum.splits thrown.splits bool.splits)

text \<open>With \<open>cjratio = 3\<close> the factor is \<open>1/2\<close>: the forward solve doubles \<open>[8]\<close> to \<open>[16]\<close>
  and the scaling gives \<open>[8]\<close>; without \<open>cj_scaling\<close>, or with \<open>cjratio = 1\<close>, the result
  is \<open>[16]\<close>.\<close>

theorem lsolve_cj_scaling_witness:
  "ida_cjratio sample_ida_mem \<noteq> - 1 \<and>
   linsol_solve sample_interface ''linsolF'' (m_facF sample_memory) [8] = Inr [16] \<and>
   lsolve sample_interface sample_memory sample_ida_mem [8] [1] [1] [0] [0] = (0, [8], []) \<and>
   lsolve (sample_interface\<lparr>cj_scaling := False\<rparr>) sample_memory sample_ida_mem [8] [1] [1] [0] [0] =
     (0, [16], []) \<and>
   lsolve sample_interface sample_memory (sample_ida_mem\<lparr>ida_cjratio := 1\<rparr>) [8] [1] [1] [0] [0] =
     (0, [16], []) \<and>
   fst (interpolate sample_ida_mem (ida_tn sample_ida_mem)) \<and>
   linsol_solve sample_interface ''linsolB'' (m_facB sample_memory) [8] = Inr [8] \<and>
   lsolveB sample_interface sample_memory sample_ida_mem [8] [1] [1] [0] [0] = (0, [4], [])"
proof -
  have r: "ida_cjratio sample_ida_mem \<noteq> - 1" "ida_cjratio (sample_ida_mem\<lparr>ida_cjratio := 1\<rparr>) \<noteq> - 1"
    by (simp_all add: sample_ida_mem_def)
  have f: "linsol_solve sample_interface ''linsolF'' (m_facF sample_memory) [8] = Inr [16]"
    "linsol_solve (sample_interface\<lparr>cj_scaling := False\<rparr>) ''linsolF'' (m_facF sample_memory) [8] = Inr [16]"
    "linsol_solve sample_interface ''linsolB'' (m_facB sample_memory) [8] = Inr [8]"
    by (simp_all add: sample_interface_def sample_solve_def)
  have i: "fst (interpolate sample_ida_mem (ida_tn sample_ida_mem))"
    by (simp add: interpolate_def sample_ida_mem_def IDA_SUCCESS_def)
  from lsolve_cj_scaling [OF r(1), of sample_interface sample_memory "[8]" "[16]" "[1]" "[1]" "[0]" "[0]"]
    lsolve_cj_scaling [OF r(1), of "sample_interface\<lparr>cj_scaling := False\<rparr>" sample_memory "[8]" "[16]" "[1]" "[1]" "[0]" "[0]"]
    lsolve_cj_scaling [OF r(2), of sample_interface sample_memory "[8]" "[16]" "[1]" "[1]" "[0]" "[0]"]
    lsolve_cj_scaling [OF r(1), of sample_interface sample_memory "[8]" "[8]" "[1]" "[1]" "[0]" "[0]"]
    r f i
  show ?thesis
    by (simp add: sample_interface_def sample_ida_mem_def)
qed

subsection \<open>The backward quadrature right-hand side\<close>

lemma write_at_whole:
  "length buf = length vals \<Longrightarrow> write_at 0 vals buf = vals"
  by (simp add: write_at_def)

lemma casadi_scal_whole:
  "casadi_scal (length x) alpha x = map (\<lambda>v. alpha * v) x"
  by (rule nth_equalityI) (simp_all add: casadi_scal_def)

text \<open>
  C10. When the model function \<open>quadB\<close>, evaluated on \<open>(rx, rz, rp, x, z, p, t)\<close>, returns
  the vector \<open>rquad\<close> of \<open>nrq\<close> components, \<open>rhsQB\<close> returns \<open>0\<close> and hands back the
  negation of \<open>rquad\<close>.
\<close>

theorem rhsQB_negates:
  assumes "calc_function s ''quadB''
             [take (nrx s) rxz, drop (nrx s) rxz, m_rp m, take (nx s) xz, drop (nx s) xz, m_p m, [t]] =
           Inr [rquad]"
    and "length rquad = nrq s"
    and "length rqdot = nrq s"
  shows "rhsQB s m t xz xzdot rxz rxzdot rqdot = Inr (0, map (\<lambda>v. - v) rquad, [])"
proof -
  have "write_outputs [0] [rquad] rqdot = rquad"
    using assms(2,3) by (simp add: write_outputs_def write_at_whole)
  moreover have "casadi_scal (nrq s) (- 1) rquad = map (\<lambda>v. - v) rquad"
    using casadi_scal_whole [of rquad "- 1"] assms(2) by simp
  ultimately show ?thesis
    using assms(1) by (simp add: rhsQB_def)
qed

theorem rhsQB_negates_witness:
  "calc_function sample_interface ''quadB''
     [take (nrx sample_interface) [6], drop (nrx sample_interface) [6], m_rp sample_memory,
      take (nx sample_interface) [1], drop (nx sample_interface) [1], m_p sample_memory, [2]] =
   Inr [[3]] \<and>
   length [3 :: real] = nrq sample_interface \<and> length [0 :: real] = nrq sample_interface \<and>
   rhsQB sample_interface sample_memory 2 [1] [0] [6] [0] [0] = Inr (0, [- 3], [])"
proof -
  have a: "calc_function sample_interface ''quadB''
     [take (nrx sample_interface) [6], drop (nrx sample_interface) [6], m_rp sample_memory,
      take (nx sample_interface) [1], drop (nx sample_interface) [1], m_p sample_memory, [2]] =
     Inr [[3]]"
    by (simp add: sample_interface_def sample_calc_def)
  have b: "length [3 :: real] = nrq sample_interface" "length [0 :: real] = nrq sample_interface"
    by (simp_all add: sample_interface_def)
  from rhsQB_negates [OF a b, of "[0]" "[0]"] a b show ?thesis
    by simp
qed

subsection \<open>Return codes of the callbacks\<close>

text \<open>
  C5, as amended. In the residual callback \<open>res\<close> an \<^verbatim>\<open>int\<close> thrown by the model
  evaluation is returned unchanged and any other exception gives \<open>-1\<close> after the line
  "res failed: ..." is written. In \<open>jtimes\<close>, \<open>rhsQ\<close>, \<open>psetup\<close> and \<open>psolve\<close> an exception
  thrown by the model evaluation or by the linear solver gives the positive code \<open>1\<close>
  after the line "<name> failed: ..." is written.
\<close>

theorem callback_return_codes:
  "(calc_function s ''daeF'' [take (nx s) xz, drop (nx s) xz, m_p m, [t]] = Inl (ThrowInt flg) \<longrightarrow>
      res s m t xz xzdot rr = Inr (flg, rr, [])) \<and>
   (calc_function s ''daeF'' [take (nx s) xz, drop (nx s) xz, m_p m, [t]] = Inl (ThrowExc what) \<longrightarrow>
      res s m t xz xzdot rr = Inr (- 1, rr, [''res failed: '' @ what])) \<and>
   (calc_function s ''jtimesF''
        [[t], take (nx s) xz, drop (nx s) xz, m_p m, take (nx s) v, drop (nx s) v] = Inl (ThrowExc what) \<longrightarrow>
      jtimes s m t xz xzdot rr v Jv cj = Inr (1, Jv, [''jtimes failed: '' @ what])) \<and>
   (calc_function s ''quadF'' [take (nx s) xz, drop (nx s) xz, m_p m, [t]] = Inl (ThrowExc what) \<longrightarrow>
      rhsQ s m t xz xzdot rr = Inr (1, rr, [''rhsQ failed: '' @ what])) \<and>
   (calc_function s ''jacF'' [[t], take (nx s) xz, drop (nx s) xz, m_p m, [cj]] = Inl (ThrowExc what) \<longrightarrow>
      psetup s m t xz xzdot cj = Inr (1, m, [''psetup failed: '' @ what])) \<and>
   (calc_function s ''jacF'' [[t], take (nx s) xz, drop (nx s) xz, m_p m, [cj]] = Inr outs \<and>
    linsol_factorize s ''linsolF'' (write_outputs [0] outs (m_jac m)) = Inl (ThrowExc what) \<longrightarrow>
      psetup s m t xz xzdot cj =
        Inr (1, m\<lparr>m_jac := write_outputs [0] outs (m_jac m)\<rparr>, [''psetup failed: '' @ what])) \<and>
   (linsol_solve s ''linsolF'' (m_facF m) rvec = Inl (ThrowExc what) \<longrightarrow>
      psolve s m t xz xzdot rr rvec cj delta = Inr (1, rvec, [''psolve failed: '' @ what]))"
  by (simp add: res_def jtimes_def rhsQ_def psetup_def psolve_def Let_def)

theorem callback_return_codes_witness:
  "res sample_interface sample_memory 0 [1] [0] [9] = Inr (2, [9], []) \<and>
   res throwing_interface sample_memory 0 [1] [0] [9] = Inr (- 1, [9], [''res failed: boom'']) \<and>
   jtimes throwing_interface sample_memory 0 [1] [0] [9] [1] [7] 2 =
     Inr (1, [7], [''jtimes failed: boom'']) \<and>
   rhsQ throwing_interface sample_memory 0 [1] [0] [9] = Inr (1, [9], [''rhsQ failed: boom'']) \<and>
   psetup sample_interface sample_memory 0 [1] [0] 2 =
     Inr (1, sample_memory, [''psetup failed: boom'']) \<and>
   psetup throwing_interface sample_memory 0 [1] [0] 2 =
     Inr (1, sample_memory\<lparr>m_jac := [5]\<rparr>, [''psetup failed: singular'']) \<and>
   psolve throwing_interface sample_memory 0 [1] [0] [9] [8] 2 0 =
     Inr (1, [8], [''psolve failed: singular''])"
proof -
  have a: "calc_function sample_interface ''daeF''
      [take (nx sample_interface) [1], drop (nx sample_interface) [1], m_p sample_memory, [0]] =
      Inl (ThrowInt 2)"
    "calc_function sample_interface ''jacF''
      [[0], take (nx sample_interface) [1], drop (nx sample_interface) [1], m_p sample_memory, [2]] =
      Inl (ThrowExc ''boom'')"
    by (simp_all add: sample_interface_def sample_calc_def)
  have b: "calc_function throwing_interface ''daeF''
      [take (nx throwing_interface) [1], drop (nx throwing_interface) [1], m_p sample_memory, [0]] =
      Inl (ThrowExc ''boom'')"
    "calc_function throwing_interface ''jtimesF''
      [[0], take (nx throwing_interface) [1], drop (nx throwing_interface) [1], m_p sample_memory,
       take (nx throwing_interface) [1], drop (nx throwing_interface) [1]] = Inl (ThrowExc ''boom'')"
    "calc_function throwing_interface ''quadF''
      [take (nx throwing_interface) [1], drop (nx throwing_interface) [1], m_p sample_memory, [0]] =
      Inl (ThrowExc ''boom'')"
    "calc_function throwing_interface ''jacF''
      [[0], take (nx throwing_interface) [1], drop (nx throwing_interface) [1], m_p sample_memory, [2]] =
      Inr [[5]]"
    "linsol_factorize throwing_interface ''linsolF'' (write_outputs [0] [[5]] (m_jac sample_memory)) =
      Inl (ThrowExc ''singular'')"
    "linsol_solve throwing_interface ''linsolF'' (m_facF sample_memory) [8] = Inl (ThrowExc ''singular'')"
    by (simp_all add: throwing_interface_def sample_interface_def)
  have c: "write_outputs [0] [[5]] (m_jac sample_memory) = [5]"
    by (simp add: write_outputs_def write_at_def sample_memory_def)
  from callback_return_codes [where s = sample_interface and xz = "[1]" and m = sample_memory and t = 0
        and flg = 2 and what = "''boom''" and xzdot = "[0]" and rr = "[9]" and v = "[1]"
        and Jv = "[7]" and cj = 2 and outs = "[[5]]" and rvec = "[8]" and delta = 0]
    callback_return_codes [where s = throwing_interface and xz = "[1]" and m = sample_memory and t = 0
        and flg = 2 and what = "''boom''" and xzdot = "[0]" and rr = "[9]" and v = "[1]"
        and Jv = "[7]" and cj = 2 and outs = "[[5]]" and rvec = "[8]" and delta = 0]
    callback_return_codes [where s = throwing_interface and xz = "[1]" and m = sample_memory and t = 0
        and flg = 2 and what = "''singular''" and xzdot = "[0]" and rr = "[9]" and v = "[1]"
        and Jv = "[7]" and cj = 2 and outs = "[[5]]" and rvec = "[8]" and delta = 0]
    a b c
  show ?thesis
    by simp
qed

text \<open>The claim as stated fails for the Jacobian-vector product: an exception thrown
  by the model evaluation is reported to the solver as \<open>1\<close>, which is not negative.\<close>

theorem jtimes_exception_counterexample:
  "calc_function throwing_interface ''jtimesF''
      [[0], take (nx throwing_interface) [1], drop (nx throwing_interface) [1], m_p sample_memory,
       take (nx throwing_interface) [1], drop (nx throwing_interface) [1]] = Inl (ThrowExc ''boom'') \<and>
   jtimes throwing_interface sample_memory 0 [1] [0] [9] [1] [7] 2 =
     Inr (1, [7], [''jtimes failed: boom''])"
  by (simp add: jtimes_def throwing_interface_def sample_interface_def)

subsection \<open>Reading the options\<close>

lemma read_option_ok:
  assumes "entry_ok op"
  shows "\<exists>s'. read_option op s = Inr s' \<and> nx s' = nx s \<and> grid s' = grid s \<and>
           init_xdot s' =
             (if fst op = ''init_xdot''
              then (case snd op of GDoubleVector v \<Rightarrow> v | _ \<Rightarrow> init_xdot s) else init_xdot s)"
proof (cases "snd op")
  case (GBool b)
  with assms show ?thesis
    by (auto simp: entry_ok_def options_def read_option_def)
next
  case (GInt i)
  with assms show ?thesis
    by (auto simp: entry_ok_def options_def read_option_def)
next
  case (GDouble d)
  with assms show ?thesis
    by (auto simp: entry_ok_def options_def read_option_def)
next
  case (GDoubleVector v)
  with assms show ?thesis
    by (auto simp: entry_ok_def options_def read_option_def)
next
  case (GString x)
  with assms show ?thesis
    by (auto simp: entry_ok_def options_def read_option_def)
qed

lemma read_dependent_option_ok:
  assumes "entry_ok op"
  shows "\<exists>s'. read_dependent_option op s = Inr s' \<and> nx s' = nx s \<and> init_xdot s' = init_xdot s"
proof (cases "snd op")
  case (GBool b)
  with assms show ?thesis
    by (auto simp: entry_ok_def options_def read_dependent_option_def)
next
  case (GInt i)
  with assms show ?thesis
    by (auto simp: entry_ok_def options_def read_dependent_option_def)
next
  case (GDouble d)
  with assms show ?thesis
    by (auto simp: entry_ok_def options_def read_dependent_option_def)
next
  case (GDoubleVector v)
  with assms show ?thesis
    by (auto simp: entry_ok_def options_def read_dependent_option_def)
next
  case (GString x)
  with assms show ?thesis
    by (auto simp: entry_ok_def options_def read_dependent_option_def)
qed

lemma for_each_read_option:
  assumes "list_all entry_ok opts" and "distinct (map fst opts)"
  shows "\<exists>s'. for_each read_option opts s = Inr s' \<and> nx s' = nx s \<and> grid s' = grid s \<and>
           init_xdot s' =
             (case map_of opts ''init_xdot'' of Some (GDoubleVector v) \<Rightarrow> v | _ \<Rightarrow> init_xdot s)"
  using assms
proof (induction opts arbitrary: s)
  case Nil
  then show ?case by simp
next
  case (Cons op ops)
  from Cons.prems have ok: "entry_ok op" and oks: "list_all entry_ok ops"
    and fresh: "fst op \<notin> fst ` set ops" and d: "distinct (map fst ops)"
    by simp_all
  from read_option_ok [OF ok, of s] obtain s1 where
    s1: "read_option op s = Inr s1" "nx s1 = nx s" "grid s1 = grid s"
      "init_xdot s1 =
         (if fst op = ''init_xdot''
          then (case snd op of GDoubleVector v \<Rightarrow> v | _ \<Rightarrow> init_xdot s) else init_xdot s)"
    by blast
  from Cons.IH [OF oks d, of s1] obtain s' where
    s': "for_each read_option ops s1 = Inr s'" "nx s' = nx s1" "grid s' = grid s1"
      "init_xdot s' =
         (case map_of ops ''init_xdot'' of Some (GDoubleVector v) \<Rightarrow> v | _ \<Rightarrow> init_xdot s1)"
    by blast
  have run: "for_each read_option (op # ops) s = Inr s'"
    using s1(1) s'(1) by simp
  have "init_xdot s' =
      (case map_of (op # ops) ''init_xdot'' of Some (GDoubleVector v) \<Rightarrow> v | _ \<Rightarrow> init_xdot s)"
  proof (cases "fst op = ''init_xdot''")
    case True
    with fresh have "map_of ops ''init_xdot'' = None"
      by (simp add: map_of_eq_None_iff)
    with s'(4) s1(4) True show ?thesis
      by (cases op) (auto split: generic.splits)
  next
    case False
    with s'(4) s1(4) show ?thesis
      by (cases op) (auto split: option.splits generic.splits)
  qed
  with run s1(2,3) s'(2,3) show ?case
    by simp
qed

lemma for_each_read_dependent_option:
  assumes "list_all entry_ok opts"
  shows "\<exists>s'. for_each read_dependent_option opts s = Inr s' \<and> nx s' = nx s \<and>
           init_xdot s' = init_xdot s"
  using assms
proof (induction opts arbitrary: s)
  case Nil
  then show ?case by simp
next
  case (Cons op ops)
  from Cons.prems have ok: "entry_ok op" and oks: "list_all entry_ok ops"
    by simp_all
  from read_dependent_option_ok [OF ok, of s] obtain s1 where
    s1: "read_dependent_option op s = Inr s1" "nx s1 = nx s" "init_xdot s1 = init_xdot s"
    by blast
  from Cons.IH [OF oks, of s1] obtain s' where
    "for_each read_dependent_option ops s1 = Inr s'" "nx s' = nx s1" "init_xdot s' = init_xdot s1"
    by blast
  with s1 show ?case
    by simp
qed

text \<open>After the two loops the dimension is the one \<open>init\<close> started with, and
  \<open>init_xdot\<close> is the vector the dictionary gives, or the one of the object.\<close>

lemma init_cases:
  assumes "well_typed opts"
    and "v = (case map_of opts ''init_xdot'' of Some (GDoubleVector w) \<Rightarrow> w | _ \<Rightarrow> init_xdot s)"
  shows "(v \<noteq> [] \<and> length v \<noteq> nx s \<longrightarrow>
            init s opts = Inl (AssertionFailed (msg_init_xdot (s\<lparr>init_xdot := v\<rparr>)))) \<and>
         (v = [] \<longrightarrow>
            (\<exists>s'. init s opts = Inr s' \<and> nx s' = nx s \<and> init_xdot s' = replicate (nx s) 0)) \<and>
         (v \<noteq> [] \<and> length v = nx s \<longrightarrow>
            (\<exists>s'. init s opts = Inr s' \<and> nx s' = nx s \<and> init_xdot s' = v))"
proof -
  define s1 where
    "s1 = s\<lparr>cj_scaling := False, calc_ic := True, suppress_algebraic := False, max_step_size := 0\<rparr>"
  from assms(1) have oks: "list_all entry_ok opts" and d: "distinct (map fst opts)"
    by (simp_all add: well_typed_def)
  from for_each_read_option [OF oks d, of s1] obtain s2 where
    s2: "for_each read_option opts s1 = Inr s2" "nx s2 = nx s" "init_xdot s2 = v"
    by (auto simp: s1_def assms(2) split: option.splits generic.splits)
  define s3 where "s3 = s2\<lparr>calc_icB := calc_ic s2, first_time := grid_back (grid s2)\<rparr>"
  from for_each_read_dependent_option [OF oks, of s3] obtain s4 where
    s4: "for_each read_dependent_option opts s3 = Inr s4" "nx s4 = nx s3" "init_xdot s4 = init_xdot s3"
    by blast
  have n: "nx s4 = nx s" and x: "init_xdot s4 = init_xdot s2"
    using s4(2,3) s2(2) by (simp_all add: s3_def)
  have i: "init s opts =
      (if init_xdot s4 = [] then Inr (s4\<lparr>init_xdot := replicate (nx s4) 0\<rparr>)
       else if length (init_xdot s4) = nx s4 then Inr s4
       else Inl (AssertionFailed (msg_init_xdot s4)))"
    using s2(1) s4(1) by (simp add: init_def s1_def [symmetric] s3_def [symmetric] Let_def)
  have m: "msg_init_xdot s4 = msg_init_xdot (s\<lparr>init_xdot := init_xdot s4\<rparr>)"
    using n by (simp add: msg_init_xdot_def)
  show ?thesis
    using i n x s2(3) m by auto
qed

subsection \<open>The option \<open>init_xdot\<close>\<close>

text \<open>
  C9, as amended. For a well-typed dictionary of options: if \<open>init_xdot\<close> is given as a
  vector that is not empty and whose length differs from \<open>nx\<close>, \<open>init\<close> fails with the
  assertion "Option "init_xdot" has incorrect length"; if it is not given (the member
  being empty, as constructed) or given as the empty vector, \<open>init\<close> succeeds and
  \<open>init_xdot\<close> is the zero vector of length \<open>nx\<close>; if it is given with length \<open>nx\<close>,
  \<open>init\<close> succeeds and keeps it.
\<close>

theorem init_xdot_length_checked:
  assumes "well_typed opts"
  shows "(map_of opts ''init_xdot'' = Some (GDoubleVector v) \<and> v \<noteq> [] \<and> length v \<noteq> nx s \<longrightarrow>
            init s opts = Inl (AssertionFailed (msg_init_xdot (s\<lparr>init_xdot := v\<rparr>)))) \<and>
         (map_of opts ''init_xdot'' = None \<and> init_xdot s = [] \<longrightarrow>
            (\<exists>s'. init s opts = Inr s' \<and> nx s' = nx s \<and> init_xdot s' = replicate (nx s) 0)) \<and>
         (map_of opts ''init_xdot'' = Some (GDoubleVector []) \<longrightarrow>
            (\<exists>s'. init s opts = Inr s' \<and> nx s' = nx s \<and> init_xdot s' = replicate (nx s) 0)) \<and>
         (map_of opts ''init_xdot'' = Some (GDoubleVector v) \<and> v \<noteq> [] \<and> length v = nx s \<longrightarrow>
            (\<exists>s'. init s opts = Inr s' \<and> nx s' = nx s \<and> init_xdot s' = v))"
proof -
  have a: "map_of opts ''init_xdot'' = Some (GDoubleVector v) \<and> v \<noteq> [] \<and> length v \<noteq> nx s \<longrightarrow>
            init s opts = Inl (AssertionFailed (msg_init_xdot (s\<lparr>init_xdot := v\<rparr>)))"
    using init_cases [OF assms, of v s] by auto
  have b: "map_of opts ''init_xdot'' = None \<and> init_xdot s = [] \<longrightarrow>
            (\<exists>s'. init s opts = Inr s' \<and> nx s' = nx s \<and> init_xdot s' = replicate (nx s) 0)"
    using init_cases [OF assms, of "[]" s] by auto
  have c: "map_of opts ''init_xdot'' = Some (GDoubleVector []) \<longrightarrow>
            (\<exists>s'. init s opts = Inr s' \<and> nx s' = nx s \<and> init_xdot s' = replicate (nx s) 0)"
    using init_cases [OF assms, of "[]" s] by auto
  have d: "map_of opts ''init_xdot'' = Some (GDoubleVector v) \<and> v \<noteq> [] \<and> length v = nx s \<longrightarrow>
            (\<exists>s'. init s opts = Inr s' \<and> nx s' = nx s \<and> init_xdot s' = v)"
    using init_cases [OF assms, of v s] by auto
  from a b c d show ?thesis
    by blast
qed

lemmas init_unfold =
  init_def read_option_def read_dependent_option_def Let_def

text \<open>The sample interface has one differential state: a vector of length two is
  rejected, no vector and the empty vector give \<open>[0]\<close>, and a vector of length one is
  kept.\<close>

theorem init_xdot_length_checked_witness:
  "well_typed [(''init_xdot'', GDoubleVector [1, 2])] \<and>
   init sample_interface [(''init_xdot'', GDoubleVector [1, 2])] =
     Inl (AssertionFailed (msg_init_xdot (sample_interface\<lparr>init_xdot := [1, 2]\<rparr>))) \<and>
   well_typed [] \<and> init_xdot sample_interface = [] \<and>
   init sample_interface [] = Inr (sample_interface\<lparr>cj_scaling := False, init_xdot := [0]\<rparr>) \<and>
   well_typed [(''init_xdot'', GDoubleVector [])] \<and>
   init sample_interface [(''init_xdot'', GDoubleVector [])] =
     Inr (sample_interface\<lparr>cj_scaling := False, init_xdot := [0]\<rparr>) \<and>
   well_typed [(''init_xdot'', GDoubleVector [3])] \<and>
   init sample_interface [(''init_xdot'', GDoubleVector [3])] =
     Inr (sample_interface\<lparr>cj_scaling := False, init_xdot := [3]\<rparr>)"
proof -
  have w: "well_typed [(''init_xdot'', GDoubleVector [1, 2])]" "well_typed []"
    "well_typed [(''init_xdot'', GDoubleVector [])]" "well_typed [(''init_xdot'', GDoubleVector [3])]"
    by (simp_all add: well_typed_def entry_ok_def options_def)
  have e: "init sample_interface [] = Inr (sample_interface\<lparr>cj_scaling := False, init_xdot := [0]\<rparr>)"
    "init sample_interface [(''init_xdot'', GDoubleVector [])] =
       Inr (sample_interface\<lparr>cj_scaling := False, init_xdot := [0]\<rparr>)"
    "init sample_interface [(''init_xdot'', GDoubleVector [3])] =
       Inr (sample_interface\<lparr>cj_scaling := False, init_xdot := [3]\<rparr>)"
    by (simp_all add: init_unfold sample_interface_def grid_back_def)
  from init_xdot_length_checked [OF w(1), of "[1, 2]" sample_interface]
    init_xdot_length_checked [OF w(2), of "[]" sample_interface]
    init_xdot_length_checked [OF w(3), of "[]" sample_interface]
    init_xdot_length_checked [OF w(4), of "[3]" sample_interface]
    w e
  show ?thesis
    by (simp add: sample_interface_def)
qed

text \<open>The claim as stated fails for the empty vector: it is supplied, its length
  \<open>0\<close> differs from \<open>nx = 1\<close>, and \<open>init\<close> accepts it.\<close>

theorem init_xdot_empty_counterexample:
  "map_of [(''init_xdot'', GDoubleVector [])] ''init_xdot'' = Some (GDoubleVector []) \<and>
   length ([] :: real list) \<noteq> nx sample_interface \<and>
   init sample_interface [(''init_xdot'', GDoubleVector [])] =
     Inr (sample_interface\<lparr>cj_scaling := False, init_xdot := [0]\<rparr>)"
  by (simp add: init_unfold sample_interface_def grid_back_def)

subsection \<open>The option \<open>abstolv\<close>\<close>

lemmas init_memory_unfold =
  init_memory_def create_def casadi_assert_message_def THROWING_def idas_error_def skip_def
  modify_def ignoring_flag_def no_output_def N_VConst_def Let_def

text \<open>
  C7. The sample interface has \<open>nx + nz = 1\<close>. Given \<open>abstolv\<close> of length two, \<open>init\<close>
  succeeds and stores the vector; \<open>init_memory\<close>, with a solver that accepts every call,
  succeeds as well and hands the vector of length two to \<open>IDASVtolerances\<close>. Neither
  function compares the length of \<open>abstolv\<close> with \<open>nx + nz\<close>.
\<close>

theorem abstolv_length_not_checked:
  "nx sample_interface + nz sample_interface = 1 \<and>
   well_typed [(''abstolv'', GDoubleVector [1 / 1000, 1 / 1000])] \<and>
   init sample_interface [(''abstolv'', GDoubleVector [1 / 1000, 1 / 1000])] =
     Inr (sample_interface\<lparr>cj_scaling := False, abstolv := [1 / 1000, 1 / 1000], init_xdot := [0]\<rparr>) \<and>
   fst (init_memory
          (sample_interface\<lparr>cj_scaling := False, abstolv := [1 / 1000, 1 / 1000], init_xdot := [0]\<rparr>)
          sample_env sample_memory) = Inr () \<and>
   m_mem (snd (init_memory
          (sample_interface\<lparr>cj_scaling := False, abstolv := [1 / 1000, 1 / 1000], init_xdot := [0]\<rparr>)
          sample_env sample_memory)) =
     [IDACreate, IDASetErrHandlerFn, IDASetUserData, IDAInit 0 [0] [0], IDASetSuppressAlg False,
      IDASetMaxOrd 5, IDASetMaxStep 0, IDASVtolerances (1 / 1000000) [1 / 1000, 1 / 1000],
      IDASetMaxNumSteps 10000, IDASetId [1], AttachLinearSolver, IDAQuadInit [0],
      IDAAdjInit 20 SD_HERMITE]"
proof -
  have a: "init sample_interface [(''abstolv'', GDoubleVector [1 / 1000, 1 / 1000])] =
     Inr (sample_interface\<lparr>cj_scaling := False, abstolv := [1 / 1000, 1 / 1000], init_xdot := [0]\<rparr>)"
    by (simp add: init_unfold sample_interface_def grid_back_def)
  have b: "init_memory
          (sample_interface\<lparr>cj_scaling := False, abstolv := [1 / 1000, 1 / 1000], init_xdot := [0]\<rparr>)
          sample_env sample_memory =
     (Inr (), sample_memory\<lparr>m_mem :=
        [IDACreate, IDASetErrHandlerFn, IDASetUserData, IDAInit 0 [0] [0], IDASetSuppressAlg False,
         IDASetMaxOrd 5, IDASetMaxStep 0, IDASVtolerances (1 / 1000000) [1 / 1000, 1 / 1000],
         IDASetMaxNumSteps 10000, IDASetId [1], AttachLinearSolver, IDAQuadInit [0],
         IDAAdjInit 20 SD_HERMITE],
        m_xz := [0], m_xzdot := [0], m_rxz := [0], m_rxzdot := [0], m_first_callB := True\<rparr>)"
    by (simp add: init_memory_unfold sample_unfold)
  have c: "well_typed [(''abstolv'', GDoubleVector [1 / 1000, 1 / 1000])]"
    by (simp add: well_typed_def entry_ok_def options_def)
  have d: "nx sample_interface + nz sample_interface = 1"
    by (simp add: sample_interface_def)
  from a b c d show ?thesis
    by simp
qed

subsection \<open>The Jacobian of the Newton iteration\<close>

lemma is_mat_row:
  "is_mat r c A \<Longrightarrow> i < r \<Longrightarrow> length (A ! i) = c"
  by (simp add: is_mat_def list_all_length)

lemma map2_nth:
  "i < length xs \<Longrightarrow> i < length ys \<Longrightarrow> map2 f xs ys ! i = f (xs ! i) (ys ! i)"
  by simp

lemma scaled_eye_entry:
  "i < n \<Longrightarrow> j < n \<Longrightarrow> mat_scale c (eye n) ! i ! j = c * (if i = j then 1 else 0)"
  by (simp add: mat_scale_def eye_def)

lemma scaled_eye_dims:
  "length (mat_scale c (eye n)) = n" "i < n \<Longrightarrow> length (mat_scale c (eye n) ! i) = n"
  by (simp_all add: mat_scale_def eye_def)

lemma mat_minus_dims:
  assumes "is_mat n n A"
  shows "length (mat_minus A (mat_scale c (eye n))) = n"
    and "i < n \<Longrightarrow> length (mat_minus A (mat_scale c (eye n)) ! i) = n"
  using assms is_mat_row [OF assms]
  by (simp_all add: mat_minus_def is_mat_def scaled_eye_dims)

lemma mat_plus_dims:
  assumes "is_mat n n A"
  shows "length (mat_plus A (mat_scale c (eye n))) = n"
    and "i < n \<Longrightarrow> length (mat_plus A (mat_scale c (eye n)) ! i) = n"
  using assms is_mat_row [OF assms]
  by (simp_all add: mat_plus_def is_mat_def scaled_eye_dims)

lemma mat_minus_entry:
  assumes "is_mat n n A" and "i < n" and "j < n"
  shows "mat_minus A (mat_scale c (eye n)) ! i ! j = A ! i ! j - c * (if i = j then 1 else 0)"
proof -
  have l: "length A = n" "length (A ! i) = n"
    using assms(1,2) is_mat_row [OF assms(1,2)] by (simp_all add: is_mat_def)
  have "mat_minus A (mat_scale c (eye n)) ! i =
      map2 (\<lambda>a b. a - b) (A ! i) (mat_scale c (eye n) ! i)"
    using l assms(2) by (simp add: mat_minus_def scaled_eye_dims)
  then show ?thesis
    using l assms(2,3) scaled_eye_entry [OF assms(2,3), of c]
    by (simp add: scaled_eye_dims)
qed

lemma mat_plus_entry:
  assumes "is_mat n n A" and "i < n" and "j < n"
  shows "mat_plus A (mat_scale c (eye n)) ! i ! j = A ! i ! j + c * (if i = j then 1 else 0)"
proof -
  have l: "length A = n" "length (A ! i) = n"
    using assms(1,2) is_mat_row [OF assms(1,2)] by (simp_all add: is_mat_def)
  have "mat_plus A (mat_scale c (eye n)) ! i =
      map2 (\<lambda>a b. a + b) (A ! i) (mat_scale c (eye n) ! i)"
    using l assms(2) by (simp add: mat_plus_def scaled_eye_dims)
  then show ?thesis
    using l assms(2,3) scaled_eye_entry [OF assms(2,3), of c]
    by (simp add: scaled_eye_dims)
qed

text \<open>The entry \<open>(i, j)\<close> of the matrix with the blocks \<open>A\<close>, \<open>B\<close> over \<open>C\<close>, \<open>D\<close>.\<close>

lemma block_entry:
  assumes "length A = n" and "length B = n" and "length C = k" and "length D = k"
    and "i < n \<Longrightarrow> length (A ! i) = n"
    and "n \<le> i \<Longrightarrow> length (C ! (i - n)) = n"
    and "i < n + k"
  shows "horzcat (vertcat A C) (vertcat B D) ! i ! j =
    (if i < n then (if j < n then A ! i ! j else B ! i ! (j - n))
     else (if j < n then C ! (i - n) ! j else D ! (i - n) ! (j - n)))"
proof -
  have "horzcat (vertcat A C) (vertcat B D) ! i = (A @ C) ! i @ (B @ D) ! i"
    using assms(1-4,7) by (auto simp: horzcat_def vertcat_def nth_append)
  then show ?thesis
    using assms by (auto simp: nth_append)
qed

lemma getJacF_entry:
  assumes "is_mat (nx s) (nx s) (J DE_ODE DE_X)" and "is_mat (nz s) (nx s) (J DE_ALG DE_X)"
    and "is_mat (nx s) (nz s) (J DE_ODE DE_Z)" and "is_mat (nz s) (nz s) (J DE_ALG DE_Z)"
    and "ns s = 0 \<or> nz s > 0" and "i < nx s + nz s" and "j < nx s + nz s"
  shows "getJacF s J sp cj ! i ! j =
    (if i < nx s
     then (if j < nx s then J DE_ODE DE_X ! i ! j - cj * (if i = j then 1 else 0)
           else J DE_ODE DE_Z ! i ! (j - nx s))
     else (if j < nx s then J DE_ALG DE_X ! (i - nx s) ! j
           else J DE_ALG DE_Z ! (i - nx s) ! (j - nx s)))"
proof (cases "nz s > 0")
  case True
  let ?A = "mat_minus (J DE_ODE DE_X) (mat_scale cj (eye (nx s)))"
  have g: "getJacF s J sp cj =
      horzcat (vertcat ?A (J DE_ALG DE_X)) (vertcat (J DE_ODE DE_Z) (J DE_ALG DE_Z))"
    using True by (simp add: getJacF_def)
  have c: "nx s \<le> i \<Longrightarrow> length (J DE_ALG DE_X ! (i - nx s)) = nx s"
    using assms(6) by (intro is_mat_row [OF assms(2)]) simp
  have "horzcat (vertcat ?A (J DE_ALG DE_X)) (vertcat (J DE_ODE DE_Z) (J DE_ALG DE_Z)) ! i ! j =
    (if i < nx s then (if j < nx s then ?A ! i ! j else J DE_ODE DE_Z ! i ! (j - nx s))
     else (if j < nx s then J DE_ALG DE_X ! (i - nx s) ! j
           else J DE_ALG DE_Z ! (i - nx s) ! (j - nx s)))"
    using assms(2-4) c assms(6)
    by (intro block_entry) (simp_all add: mat_minus_dims [OF assms(1)] is_mat_def)
  with g show ?thesis
    by (simp add: mat_minus_entry [OF assms(1)])
next
  case False
  with assms(5) have "getJacF s J sp cj = mat_minus (J DE_ODE DE_X) (mat_scale cj (eye (nx s)))"
    by (simp add: getJacF_def)
  with False assms(6,7) show ?thesis
    by (simp add: mat_minus_entry [OF assms(1)])
qed

lemma getJacB_entry:
  assumes "is_mat (nrx s) (nrx s) (J DE_RODE DE_RX)" and "is_mat (nrz s) (nrx s) (J DE_RALG DE_RX)"
    and "is_mat (nrx s) (nrz s) (J DE_RODE DE_RZ)" and "is_mat (nrz s) (nrz s) (J DE_RALG DE_RZ)"
    and "ns s = 0 \<or> nrz s > 0" and "i < nrx s + nrz s" and "j < nrx s + nrz s"
  shows "getJacB s J sp cj ! i ! j =
    (if i < nrx s
     then (if j < nrx s then J DE_RODE DE_RX ! i ! j + cj * (if i = j then 1 else 0)
           else J DE_RODE DE_RZ ! i ! (j - nrx s))
     else (if j < nrx s then J DE_RALG DE_RX ! (i - nrx s) ! j
           else J DE_RALG DE_RZ ! (i - nrx s) ! (j - nrx s)))"
proof (cases "nrz s > 0")
  case True
  let ?A = "mat_plus (J DE_RODE DE_RX) (mat_scale cj (eye (nrx s)))"
  have g: "getJacB s J sp cj =
      horzcat (vertcat ?A (J DE_RALG DE_RX)) (vertcat (J DE_RODE DE_RZ) (J DE_RALG DE_RZ))"
    using True by (simp add: getJacB_def)
  have c: "nrx s \<le> i \<Longrightarrow> length (J DE_RALG DE_RX ! (i - nrx s)) = nrx s"
    using assms(6) by (intro is_mat_row [OF assms(2)]) simp
  have "horzcat (vertcat ?A (J DE_RALG DE_RX)) (vertcat (J DE_RODE DE_RZ) (J DE_RALG DE_RZ)) ! i ! j =
    (if i < nrx s then (if j < nrx s then ?A ! i ! j else J DE_RODE DE_RZ ! i ! (j - nrx s))
     else (if j < nrx s then J DE_RALG DE_RX ! (i - nrx s) ! j
           else J DE_RALG DE_RZ ! (i - nrx s) ! (j - nrx s)))"
    using assms(2-4) c assms(6)
    by (intro block_entry) (simp_all add: mat_plus_dims [OF assms(1)] is_mat_def)
  with g show ?thesis
    by (simp add: mat_plus_entry [OF assms(1)])
next
  case False
  with assms(5) have "getJacB s J sp cj = mat_plus (J DE_RODE DE_RX) (mat_scale cj (eye (nrx s)))"
    by (simp add: getJacB_def)
  with False assms(6,7) show ?thesis
    by (simp add: mat_plus_entry [OF assms(1)])
qed

text \<open>
  C3, as amended. Let the four partial derivatives have the dimensions of the model.
  Unless the sparsity projection applies (\<open>ns > 0\<close> without algebraic variables), the
  forward Jacobian has the entries of the block matrix with \<open>\<partial>ode/\<partial>x - cj I\<close> and
  \<open>\<partial>ode/\<partial>z\<close> over \<open>\<partial>alg/\<partial>x\<close> and \<open>\<partial>alg/\<partial>z\<close>, and the backward Jacobian those of
  the block matrix with \<open>\<partial>rode/\<partial>rx + cj I\<close> and \<open>\<partial>rode/\<partial>rz\<close> over \<open>\<partial>ralg/\<partial>rx\<close> and
  \<open>\<partial>ralg/\<partial>rz\<close>. With algebraic variables the Jacobian is the horizontal concatenation
  of the two vertical concatenations of these blocks. With \<open>ns > 0\<close> and no algebraic
  variables it is the projection of the differential block on the block-diagonal
  pattern of \<open>1 + ns\<close> copies of the pattern of the base integrator's Jacobian.
\<close>

theorem jacobian_assembly:
  assumes "is_mat (nx s) (nx s) (J DE_ODE DE_X)" and "is_mat (nz s) (nx s) (J DE_ALG DE_X)"
    and "is_mat (nx s) (nz s) (J DE_ODE DE_Z)" and "is_mat (nz s) (nz s) (J DE_ALG DE_Z)"
    and "is_mat (nrx s) (nrx s) (J DE_RODE DE_RX)" and "is_mat (nrz s) (nrx s) (J DE_RALG DE_RX)"
    and "is_mat (nrx s) (nrz s) (J DE_RODE DE_RZ)" and "is_mat (nrz s) (nrz s) (J DE_RALG DE_RZ)"
  shows
    "((ns s = 0 \<or> nz s > 0) \<and> i < nx s + nz s \<and> j < nx s + nz s \<longrightarrow>
        getJacF s J sp cj ! i ! j =
          (if i < nx s
           then (if j < nx s then J DE_ODE DE_X ! i ! j - cj * (if i = j then 1 else 0)
                 else J DE_ODE DE_Z ! i ! (j - nx s))
           else (if j < nx s then J DE_ALG DE_X ! (i - nx s) ! j
                 else J DE_ALG DE_Z ! (i - nx s) ! (j - nx s)))) \<and>
     ((ns s = 0 \<or> nrz s > 0) \<and> i < nrx s + nrz s \<and> j < nrx s + nrz s \<longrightarrow>
        getJacB s J spB cj ! i ! j =
          (if i < nrx s
           then (if j < nrx s then J DE_RODE DE_RX ! i ! j + cj * (if i = j then 1 else 0)
                 else J DE_RODE DE_RZ ! i ! (j - nrx s))
           else (if j < nrx s then J DE_RALG DE_RX ! (i - nrx s) ! j
                 else J DE_RALG DE_RZ ! (i - nrx s) ! (j - nrx s)))) \<and>
     (nz s > 0 \<longrightarrow>
        getJacF s J sp cj =
          horzcat (vertcat (mat_minus (J DE_ODE DE_X) (mat_scale cj (eye (nx s)))) (J DE_ALG DE_X))
                  (vertcat (J DE_ODE DE_Z) (J DE_ALG DE_Z))) \<and>
     (nrz s > 0 \<longrightarrow>
        getJacB s J spB cj =
          horzcat (vertcat (mat_plus (J DE_RODE DE_RX) (mat_scale cj (eye (nrx s)))) (J DE_RALG DE_RX))
                  (vertcat (J DE_RODE DE_RZ) (J DE_RALG DE_RZ))) \<and>
     (ns s > 0 \<and> nz s = 0 \<longrightarrow>
        getJacF s J sp cj =
          project (mat_minus (J DE_ODE DE_X) (mat_scale cj (eye (nx s))))
                  (diagcat (replicate (1 + ns s) sp))) \<and>
     (ns s > 0 \<and> nrz s = 0 \<longrightarrow>
        getJacB s J spB cj =
          project (mat_plus (J DE_RODE DE_RX) (mat_scale cj (eye (nrx s))))
                  (diagcat (replicate (1 + ns s) spB)))"
proof -
  have f: "(ns s = 0 \<or> nz s > 0) \<and> i < nx s + nz s \<and> j < nx s + nz s \<longrightarrow>
        getJacF s J sp cj ! i ! j =
          (if i < nx s
           then (if j < nx s then J DE_ODE DE_X ! i ! j - cj * (if i = j then 1 else 0)
                 else J DE_ODE DE_Z ! i ! (j - nx s))
           else (if j < nx s then J DE_ALG DE_X ! (i - nx s) ! j
                 else J DE_ALG DE_Z ! (i - nx s) ! (j - nx s)))"
    using getJacF_entry [OF assms(1-4), of i j sp cj] by blast
  have b: "(ns s = 0 \<or> nrz s > 0) \<and> i < nrx s + nrz s \<and> j < nrx s + nrz s \<longrightarrow>
        getJacB s J spB cj ! i ! j =
          (if i < nrx s
           then (if j < nrx s then J DE_RODE DE_RX ! i ! j + cj * (if i = j then 1 else 0)
                 else J DE_RODE DE_RZ ! i ! (j - nrx s))
           else (if j < nrx s then J DE_RALG DE_RX ! (i - nrx s) ! j
                 else J DE_RALG DE_RZ ! (i - nrx s) ! (j - nrx s)))"
    using getJacB_entry [OF assms(5-8), of i j spB cj] by blast
  have c: "nz s > 0 \<longrightarrow>
        getJacF s J sp cj =
          horzcat (vertcat (mat_minus (J DE_ODE DE_X) (mat_scale cj (eye (nx s)))) (J DE_ALG DE_X))
                  (vertcat (J DE_ODE DE_Z) (J DE_ALG DE_Z))"
    by (simp add: getJacF_def)
  have d: "nrz s > 0 \<longrightarrow>
        getJacB s J spB cj =
          horzcat (vertcat (mat_plus (J DE_RODE DE_RX) (mat_scale cj (eye (nrx s)))) (J DE_RALG DE_RX))
                  (vertcat (J DE_RODE DE_RZ) (J DE_RALG DE_RZ))"
    by (simp add: getJacB_def)
  have e: "ns s > 0 \<and> nz s = 0 \<longrightarrow>
        getJacF s J sp cj =
          project (mat_minus (J DE_ODE DE_X) (mat_scale cj (eye (nx s))))
                  (diagcat (replicate (1 + ns s) sp))"
    by (simp add: getJacF_def)
  have g: "ns s > 0 \<and> nrz s = 0 \<longrightarrow>
        getJacB s J spB cj =
          project (mat_plus (J DE_RODE DE_RX) (mat_scale cj (eye (nrx s))))
                  (diagcat (replicate (1 + ns s) spB))"
    by (simp add: getJacB_def)
  from f b c d e g show ?thesis
    by blast
qed

lemma upt_two: "[0..<2] = [0, Suc 0]"
  by (simp add: numeral_2_eq_2)

lemmas jac_unfold = upt_two
  getJacF_def getJacB_def mat_minus_def mat_plus_def mat_scale_def eye_def horzcat_def vertcat_def
  project_def ncols_def Let_def

lemma dae_dims:
  "is_mat (nx dae_interface) (nx dae_interface) (dae_J DE_ODE DE_X)"
  "is_mat (nz dae_interface) (nx dae_interface) (dae_J DE_ALG DE_X)"
  "is_mat (nx dae_interface) (nz dae_interface) (dae_J DE_ODE DE_Z)"
  "is_mat (nz dae_interface) (nz dae_interface) (dae_J DE_ALG DE_Z)"
  "is_mat (nrx dae_interface) (nrx dae_interface) (dae_J DE_RODE DE_RX)"
  "is_mat (nrz dae_interface) (nrx dae_interface) (dae_J DE_RALG DE_RX)"
  "is_mat (nrx dae_interface) (nrz dae_interface) (dae_J DE_RODE DE_RZ)"
  "is_mat (nrz dae_interface) (nrz dae_interface) (dae_J DE_RALG DE_RZ)"
  by (simp_all add: is_mat_def dae_interface_def dae_J_def sample_interface_def)

lemma sens_dims:
  "is_mat (nx sens_interface) (nx sens_interface) (sens_J DE_ODE DE_X)"
  "is_mat (nz sens_interface) (nx sens_interface) (sens_J DE_ALG DE_X)"
  "is_mat (nx sens_interface) (nz sens_interface) (sens_J DE_ODE DE_Z)"
  "is_mat (nz sens_interface) (nz sens_interface) (sens_J DE_ALG DE_Z)"
  "is_mat (nrx sens_interface) (nrx sens_interface) (sens_J DE_RODE DE_RX)"
  "is_mat (nrz sens_interface) (nrx sens_interface) (sens_J DE_RALG DE_RX)"
  "is_mat (nrx sens_interface) (nrz sens_interface) (sens_J DE_RODE DE_RZ)"
  "is_mat (nrz sens_interface) (nrz sens_interface) (sens_J DE_RALG DE_RZ)"
  by (simp_all add: is_mat_def sens_interface_def sens_J_def sample_interface_def)

text \<open>With one differential and one algebraic state and \<open>cj = 2\<close> the forward Jacobian
  is \<open>[[1 - 2, 2], [3, 4]]\<close> and the backward one \<open>[[1 + 2, 2], [3, 4]]\<close>; with one
  sensitivity direction the projection applies.\<close>

theorem jacobian_assembly_witness:
  "is_mat (nx dae_interface) (nx dae_interface) (dae_J DE_ODE DE_X) \<and>
   is_mat (nz dae_interface) (nx dae_interface) (dae_J DE_ALG DE_X) \<and>
   is_mat (nx dae_interface) (nz dae_interface) (dae_J DE_ODE DE_Z) \<and>
   is_mat (nz dae_interface) (nz dae_interface) (dae_J DE_ALG DE_Z) \<and>
   is_mat (nrx dae_interface) (nrx dae_interface) (dae_J DE_RODE DE_RX) \<and>
   is_mat (nrz dae_interface) (nrx dae_interface) (dae_J DE_RALG DE_RX) \<and>
   is_mat (nrx dae_interface) (nrz dae_interface) (dae_J DE_RODE DE_RZ) \<and>
   is_mat (nrz dae_interface) (nrz dae_interface) (dae_J DE_RALG DE_RZ) \<and>
   ns dae_interface = 0 \<and> 0 < nz dae_interface \<and> 0 < nrz dae_interface \<and>
   (0 :: nat) < nx dae_interface + nz dae_interface \<and> (1 :: nat) < nx dae_interface + nz dae_interface \<and>
   getJacF dae_interface dae_J [] 2 ! 0 ! 0 = - 1 \<and>
   getJacB dae_interface dae_J [] 2 ! 0 ! 0 = 3 \<and>
   getJacF dae_interface dae_J [] 2 = [[- 1, 2], [3, 4]] \<and>
   getJacB dae_interface dae_J [] 2 = [[3, 2], [3, 4]] \<and>
   0 < ns sens_interface \<and> nz sens_interface = 0 \<and> nrz sens_interface = 0 \<and>
   getJacF sens_interface sens_J [[True]] 2 = [[- 1, 0], [0, - 1]] \<and>
   getJacB sens_interface sens_J [[True]] 2 = [[3]]"
proof -
  have v: "ns dae_interface = 0" "0 < nz dae_interface" "0 < nrz dae_interface"
    "(0 :: nat) < nx dae_interface + nz dae_interface" "(1 :: nat) < nx dae_interface + nz dae_interface"
    "0 < ns sens_interface" "nz sens_interface = 0" "nrz sens_interface = 0"
    "(0 :: nat) < nrx dae_interface + nrz dae_interface"
    by (simp_all add: dae_interface_def sens_interface_def sample_interface_def)
  note dae = jacobian_assembly [OF dae_dims, of 0 0 "[]" 2 "[]"]
  have e0: "getJacF dae_interface dae_J [] 2 ! 0 ! 0 =
      (if 0 < nx dae_interface
       then (if 0 < nx dae_interface then dae_J DE_ODE DE_X ! 0 ! 0 - 2 * (if (0 :: nat) = 0 then 1 else 0)
             else dae_J DE_ODE DE_Z ! 0 ! (0 - nx dae_interface))
       else (if 0 < nx dae_interface then dae_J DE_ALG DE_X ! (0 - nx dae_interface) ! 0
             else dae_J DE_ALG DE_Z ! (0 - nx dae_interface) ! (0 - nx dae_interface)))"
    using dae v(1,4) by blast
  have e1: "getJacB dae_interface dae_J [] 2 ! 0 ! 0 =
      (if 0 < nrx dae_interface
       then (if 0 < nrx dae_interface then dae_J DE_RODE DE_RX ! 0 ! 0 + 2 * (if (0 :: nat) = 0 then 1 else 0)
             else dae_J DE_RODE DE_RZ ! 0 ! (0 - nrx dae_interface))
       else (if 0 < nrx dae_interface then dae_J DE_RALG DE_RX ! (0 - nrx dae_interface) ! 0
             else dae_J DE_RALG DE_RZ ! (0 - nrx dae_interface) ! (0 - nrx dae_interface)))"
    using dae v(1,9) by blast
  have e: "getJacF dae_interface dae_J [] 2 ! 0 ! 0 = - 1"
    "getJacB dae_interface dae_J [] 2 ! 0 ! 0 = 3"
    unfolding e0 e1 by (simp_all add: dae_interface_def dae_J_def sample_interface_def)
  have c: "getJacF dae_interface dae_J [] 2 =
      horzcat (vertcat (mat_minus (dae_J DE_ODE DE_X) (mat_scale 2 (eye (nx dae_interface))))
                 (dae_J DE_ALG DE_X))
              (vertcat (dae_J DE_ODE DE_Z) (dae_J DE_ALG DE_Z))"
    "getJacB dae_interface dae_J [] 2 =
      horzcat (vertcat (mat_plus (dae_J DE_RODE DE_RX) (mat_scale 2 (eye (nrx dae_interface))))
                 (dae_J DE_RALG DE_RX))
              (vertcat (dae_J DE_RODE DE_RZ) (dae_J DE_RALG DE_RZ))"
    using dae v(2,3) by blast+
  have m: "getJacF dae_interface dae_J [] 2 = [[- 1, 2], [3, 4]]"
    "getJacB dae_interface dae_J [] 2 = [[3, 2], [3, 4]]"
    unfolding c by (simp_all add: jac_unfold dae_interface_def dae_J_def sample_interface_def)
  have q: "getJacF sens_interface sens_J [[True]] 2 =
      project (mat_minus (sens_J DE_ODE DE_X) (mat_scale 2 (eye (nx sens_interface))))
        (diagcat (replicate (1 + ns sens_interface) [[True]]))"
    "getJacB sens_interface sens_J [[True]] 2 =
      project (mat_plus (sens_J DE_RODE DE_RX) (mat_scale 2 (eye (nrx sens_interface))))
        (diagcat (replicate (1 + ns sens_interface) [[True]]))"
    using jacobian_assembly [OF sens_dims, of 0 0 "[[True]]" 2 "[[True]]"] v(6-8)
    by blast+
  have p: "getJacF sens_interface sens_J [[True]] 2 = [[- 1, 0], [0, - 1]]"
    "getJacB sens_interface sens_J [[True]] 2 = [[3]]"
    unfolding q
    by (simp_all add: jac_unfold sens_interface_def sens_J_def sample_interface_def)
  from dae_dims v e m p show ?thesis
    by blast
qed

text \<open>The claim as stated fails when the projection applies: below the diagonal the
  partial derivative of \<open>ode\<close> with respect to \<open>x\<close>, minus \<open>cj\<close> times the identity, has
  the entry \<open>7\<close>, and the Jacobian has \<open>0\<close>.\<close>

theorem jacobian_projection_counterexample:
  "mat_minus (sens_J DE_ODE DE_X) (mat_scale 2 (eye (nx sens_interface))) = [[- 1, 0], [7, - 1]] \<and>
   getJacF sens_interface sens_J [[True]] 2 = [[- 1, 0], [0, - 1]]"
  by (simp add: jac_unfold sens_interface_def sens_J_def sample_interface_def)

end
